theory Spec2Isabelle
  imports Main "HOL-Library.AList" "HOL-Library.Sublist"
begin

section \<open>Python values and the library functions the ledger code calls\<close>

text \<open>
  The change-ledger code of \<^verbatim>\<open>app/server.py\<close> moves untyped Python values between
  SQLite rows, JSON payloads and SQL parameters. One datatype covers them all: a cell of a
  row is \<open>PNone\<close>, \<open>PInt\<close>, \<open>PFloat\<close> or \<open>PStr\<close>; a decoded JSON document may also hold
  \<open>PBool\<close>, \<open>PList\<close> and \<open>PDict\<close>. A float is identified by its \<^verbatim>\<open>repr\<close> text (which
  Python guarantees to read back as the same float), so that floats are compared exactly
  and no floating-point arithmetic is needed. A dict is an association list; a lookup
  takes the first entry of a key. Strings are lists of 8-bit characters, read as the code
  points below 256.
\<close>

datatype pyval =
    PNone
  | PBool bool
  | PInt int
  | PFloat string
  | PStr string
  | PList "pyval list"
  | PDict "(string \<times> pyval) list"

type_synonym pydict = "(string \<times> pyval) list"

text \<open>Truth value of a Python object, as \<^verbatim>\<open>if x\<close>, \<^verbatim>\<open>not x\<close> and \<^verbatim>\<open>x or y\<close> test it.\<close>

fun py_truthy :: "pyval \<Rightarrow> bool" where
  "py_truthy PNone = False"
| "py_truthy (PBool b) = b"
| "py_truthy (PInt n) = (n \<noteq> 0)"
| "py_truthy (PFloat r) = (r \<noteq> ''0.0'' \<and> r \<noteq> ''-0.0'')"
| "py_truthy (PStr s) = (s \<noteq> [])"
| "py_truthy (PList xs) = (xs \<noteq> [])"
| "py_truthy (PDict kvs) = (kvs \<noteq> [])"

definition py_or :: "pyval \<Rightarrow> pyval \<Rightarrow> pyval" where
  "py_or a b = (if py_truthy a then a else b)"

text \<open>\<^verbatim>\<open>d.get(k)\<close>: the value, or \<^verbatim>\<open>None\<close> for a missing key.\<close>

definition dict_get :: "pydict \<Rightarrow> string \<Rightarrow> pyval" where
  "dict_get d k = (case map_of d k of None \<Rightarrow> PNone | Some v \<Rightarrow> v)"

text \<open>\<^verbatim>\<open>d[k] = v\<close>: an existing key keeps its place, a new key goes to the end.\<close>

definition dict_set :: "pydict \<Rightarrow> string \<Rightarrow> pyval \<Rightarrow> pydict" where
  "dict_set d k v = AList.update k v d"

definition dict_keys :: "pydict \<Rightarrow> string list" where
  "dict_keys d = remdups (map fst d)"

definition opt_str :: "string option \<Rightarrow> pyval" where
  "opt_str s = (case s of None \<Rightarrow> PNone | Some t \<Rightarrow> PStr t)"

definition opt_int :: "int option \<Rightarrow> pyval" where
  "opt_int n = (case n of None \<Rightarrow> PNone | Some i \<Rightarrow> PInt i)"

definition opt_dict :: "pydict option \<Rightarrow> pyval" where
  "opt_dict d = (case d of None \<Rightarrow> PNone | Some kvs \<Rightarrow> PDict kvs)"

subsection \<open>\<^verbatim>\<open>str\<close>, \<^verbatim>\<open>repr\<close>, \<^verbatim>\<open>strip\<close>, \<^verbatim>\<open>lower\<close>, \<^verbatim>\<open>join\<close>\<close>

fun digits_of_nat :: "nat \<Rightarrow> string" where
  "digits_of_nat n =
     (if n < 10 then [''0123456789'' ! n]
      else digits_of_nat (n div 10) @ [''0123456789'' ! (n mod 10)])"

declare digits_of_nat.simps [simp del]

definition str_of_int :: "int \<Rightarrow> string" where
  "str_of_int i = (if i < 0 then CHR ''-'' # digits_of_nat (nat (- i)) else digits_of_nat (nat i))"

definition hex2 :: "nat \<Rightarrow> string" where
  "hex2 n = [''0123456789abcdef'' ! (n div 16 mod 16), ''0123456789abcdef'' ! (n mod 16)]"

definition code_of :: "char \<Rightarrow> nat" where
  "code_of c = of_char c"

text \<open>
  \<^verbatim>\<open>repr\<close> of a string: single quotes unless the text has a single quote and no double
  quote; backslash, the chosen quote, tab, newline and carriage return are escaped, every
  other non-printable character is written \<^verbatim>\<open>\xNN\<close>.
\<close>

definition py_printable :: "char \<Rightarrow> bool" where
  "py_printable c = (let n = code_of c in (32 \<le> n \<and> n < 127) \<or> (161 \<le> n \<and> n \<noteq> 173))"

definition repr_char :: "char \<Rightarrow> char \<Rightarrow> string" where
  "repr_char q c =
     (if c = CHR 0x5C then [CHR 0x5C, CHR 0x5C]
      else if c = q then [CHR 0x5C, q]
      else if c = CHR 0x09 then [CHR 0x5C, CHR ''t'']
      else if c = CHR 0x0A then [CHR 0x5C, CHR ''n'']
      else if c = CHR 0x0D then [CHR 0x5C, CHR ''r'']
      else if py_printable c then [c]
      else [CHR 0x5C, CHR ''x''] @ hex2 (code_of c))"

definition repr_str :: "string \<Rightarrow> string" where
  "repr_str s =
     (let q = (if CHR 0x27 \<in> set s \<and> CHR 0x22 \<notin> set s then CHR 0x22 else CHR 0x27)
      in [q] @ concat (map (repr_char q) s) @ [q])"

fun join :: "string \<Rightarrow> string list \<Rightarrow> string" where
  "join sep [] = []"
| "join sep [x] = x"
| "join sep (x # y # ys) = x @ sep @ join sep (y # ys)"

fun py_repr :: "pyval \<Rightarrow> string"
  and py_repr_list :: "pyval list \<Rightarrow> string list"
  and py_repr_items :: "(string \<times> pyval) list \<Rightarrow> string list" where
  "py_repr PNone = ''None''"
| "py_repr (PBool b) = (if b then ''True'' else ''False'')"
| "py_repr (PInt n) = str_of_int n"
| "py_repr (PFloat r) = r"
| "py_repr (PStr s) = repr_str s"
| "py_repr (PList xs) = ''['' @ join '', '' (py_repr_list xs) @ '']''"
| "py_repr (PDict kvs) = ''{'' @ join '', '' (py_repr_items kvs) @ ''}''"
| "py_repr_list [] = []"
| "py_repr_list (x # xs) = py_repr x # py_repr_list xs"
| "py_repr_items [] = []"
| "py_repr_items ((k, v) # kvs) = (repr_str k @ '': '' @ py_repr v) # py_repr_items kvs"

text \<open>\<^verbatim>\<open>str(x)\<close>: the text itself for a string, \<^verbatim>\<open>repr(x)\<close> for everything else.\<close>

definition py_str :: "pyval \<Rightarrow> string" where
  "py_str v = (case v of PStr s \<Rightarrow> s | _ \<Rightarrow> py_repr v)"

text \<open>\<^verbatim>\<open>str.isspace\<close> on the code points below 256, and \<^verbatim>\<open>str.strip()\<close>.\<close>

definition py_isspace :: "char \<Rightarrow> bool" where
  "py_isspace c = (let n = code_of c in (9 \<le> n \<and> n \<le> 13) \<or> (28 \<le> n \<and> n \<le> 32) \<or> n = 133 \<or> n = 160)"

definition py_strip :: "string \<Rightarrow> string" where
  "py_strip s = rev (dropWhile py_isspace (rev (dropWhile py_isspace s)))"

definition lower_char :: "char \<Rightarrow> char" where
  "lower_char c =
     (let n = code_of c
      in if (65 \<le> n \<and> n \<le> 90) \<or> (192 \<le> n \<and> n \<le> 222 \<and> n \<noteq> 215) then char_of (n + 32) else c)"

definition py_lower :: "string \<Rightarrow> string" where
  "py_lower s = map lower_char s"

subsection \<open>\<^verbatim>\<open>to_int\<close>\<close>

text \<open>
  \<^verbatim>\<open>int(text)\<close> in base 10: surrounding white space is ignored, one sign is allowed, and
  the digits may be grouped by single underscores. \<open>None\<close> stands for \<^verbatim>\<open>ValueError\<close>.
  The cap that recent interpreters put on the number of digits of the text (4300 unless
  configured otherwise) is not modelled.
\<close>

definition is_digit :: "char \<Rightarrow> bool" where
  "is_digit c = (48 \<le> code_of c \<and> code_of c \<le> 57)"

fun parse_digits :: "nat \<Rightarrow> bool \<Rightarrow> string \<Rightarrow> nat option" where
  "parse_digits acc after_digit [] = (if after_digit then Some acc else None)"
| "parse_digits acc after_digit (c # cs) =
     (if is_digit c then parse_digits (10 * acc + (code_of c - 48)) True cs
      else if c = CHR ''_'' \<and> after_digit then parse_digits acc False cs
      else None)"

definition py_int :: "string \<Rightarrow> int option" where
  "py_int s =
     (case py_strip s of
        [] \<Rightarrow> None
      | c # cs \<Rightarrow>
          if c = CHR ''-'' then map_option (\<lambda>n. - int n) (parse_digits 0 False cs)
          else if c = CHR ''+'' then map_option int (parse_digits 0 False cs)
          else map_option int (parse_digits 0 False (c # cs)))"

text \<open>
  \<^verbatim>\<open>to_int(value)\<close> with the default \<^verbatim>\<open>None\<close> (line 1200): \<^verbatim>\<open>None\<close> and the empty string
  give the default, and so does a text \<^verbatim>\<open>int\<close> rejects.
\<close>

definition to_int :: "string option \<Rightarrow> int option" where
  "to_int v = (case v of None \<Rightarrow> None | Some s \<Rightarrow> if s = [] then None else py_int s)"

subsection \<open>\<^verbatim>\<open>json.dumps\<close> and \<^verbatim>\<open>iso()\<close>\<close>

text \<open>
  \<^verbatim>\<open>json.dumps(payload, ensure_ascii=True)\<close> with the default separators: every character
  outside the printable ASCII range, the double quote and the backslash are escaped.
\<close>

definition hex4 :: "nat \<Rightarrow> string" where
  "hex4 n = hex2 (n div 256) @ hex2 n"

definition json_escape_char :: "char \<Rightarrow> string" where
  "json_escape_char c =
     (if c = CHR 0x22 then [CHR 0x5C, CHR 0x22]
      else if c = CHR 0x5C then [CHR 0x5C, CHR 0x5C]
      else if c = CHR 0x0A then [CHR 0x5C, CHR ''n'']
      else if c = CHR 0x0D then [CHR 0x5C, CHR ''r'']
      else if c = CHR 0x09 then [CHR 0x5C, CHR ''t'']
      else if c = CHR 0x08 then [CHR 0x5C, CHR ''b'']
      else if c = CHR 0x0C then [CHR 0x5C, CHR ''f'']
      else if 32 \<le> code_of c \<and> code_of c \<le> 126 then [c]
      else [CHR 0x5C, CHR ''u''] @ hex4 (code_of c))"

definition json_string :: "string \<Rightarrow> string" where
  "json_string s = [CHR 0x22] @ concat (map json_escape_char s) @ [CHR 0x22]"

fun json_dumps :: "pyval \<Rightarrow> string"
  and json_dumps_list :: "pyval list \<Rightarrow> string list"
  and json_dumps_items :: "(string \<times> pyval) list \<Rightarrow> string list" where
  "json_dumps PNone = ''null''"
| "json_dumps (PBool b) = (if b then ''true'' else ''false'')"
| "json_dumps (PInt n) = str_of_int n"
| "json_dumps (PFloat r) =
     (if r = ''inf'' then ''Infinity'' else if r = ''-inf'' then ''-Infinity''
      else if r = ''nan'' then ''NaN'' else r)"
| "json_dumps (PStr s) = json_string s"
| "json_dumps (PList xs) = ''['' @ join '', '' (json_dumps_list xs) @ '']''"
| "json_dumps (PDict kvs) = ''{'' @ join '', '' (json_dumps_items kvs) @ ''}''"
| "json_dumps_list [] = []"
| "json_dumps_list (x # xs) = json_dumps x # json_dumps_list xs"
| "json_dumps_items [] = []"
| "json_dumps_items ((k, v) # kvs) = (json_string k @ '': '' @ json_dumps v) # json_dumps_items kvs"

declare json_dumps.simps [simp del] py_repr.simps [simp del]

text \<open>
  \<^verbatim>\<open>iso()\<close> (line 598) formats the current UTC time without microseconds. The instant is
  taken from a clock: \<open>clock k\<close> is what the \<open>k\<close>-th call of \<^verbatim>\<open>utcnow()\<close> during one
  operation returns.
\<close>

record datetime =
  year :: nat
  month :: nat
  day :: nat
  hour :: nat
  minute :: nat
  second :: nat

definition pad2 :: "nat \<Rightarrow> string" where
  "pad2 n = [''0123456789'' ! (n div 10 mod 10), ''0123456789'' ! (n mod 10)]"

definition iso :: "datetime \<Rightarrow> string" where
  "iso ts = pad2 (year ts div 100) @ pad2 (year ts) @ ''-'' @ pad2 (month ts) @ ''-'' @ pad2 (day ts)
      @ ''T'' @ pad2 (hour ts) @ '':'' @ pad2 (minute ts) @ '':'' @ pad2 (second ts) @ ''+00:00''"

section \<open>The relational store\<close>

text \<open>
  The store is the SQLite database behind \<^verbatim>\<open>conn\<close>: named tables, each with its column
  names, its \<^verbatim>\<open>NOT NULL\<close> columns, its column defaults and its rows, and the
  \<^verbatim>\<open>audit_log\<close> table with its \<^verbatim>\<open>AUTOINCREMENT\<close> counter. A row maps column names to
  cells; a column the row does not list is \<^verbatim>\<open>NULL\<close>. A cell holds the bound value as it
  is (the store is read as one without column type affinity); foreign keys, triggers and
  \<^verbatim>\<open>UNIQUE\<close> constraints other than the primary key \<^verbatim>\<open>id\<close> are outside the model. A
  statement that SQLite or the driver rejects raises, which the model returns as \<open>Inl\<close>.
\<close>

type_synonym row = "(string \<times> pyval) list"

record table =
  t_columns :: "string list"
  t_notnull :: "string list"
  t_defaults :: "(string \<times> pyval) list"
  t_rows :: "row list"

record audit_row =
  a_id :: int
  a_organization_id :: "int option"
  a_user_id :: "int option"
  a_action :: string
  a_entity :: "string option"
  a_entity_id :: "string option"
  a_details :: "string option"
  a_created_at :: string

record db =
  tables :: "(string \<times> table) list"
  audit_log :: "audit_row list"
  audit_seq :: int

datatype exn = OperationalError | IntegrityError | InterfaceError | OverflowError

definition sqlite_int :: "int \<Rightarrow> bool" where
  "sqlite_int n = (- (2 ^ 63) \<le> n \<and> n < 2 ^ 63)"

text \<open>Binding a Python value to a \<^verbatim>\<open>?\<close> placeholder.\<close>

fun sql_bind :: "pyval \<Rightarrow> exn + pyval" where
  "sql_bind PNone = Inr PNone"
| "sql_bind (PBool b) = Inr (PInt (if b then 1 else 0))"
| "sql_bind (PInt n) = (if sqlite_int n then Inr (PInt n) else Inl OverflowError)"
| "sql_bind (PFloat r) = Inr (PFloat r)"
| "sql_bind (PStr s) = Inr (PStr s)"
| "sql_bind (PList xs) = Inl InterfaceError"
| "sql_bind (PDict kvs) = Inl InterfaceError"

fun sql_bind_all :: "pyval list \<Rightarrow> exn + pyval list" where
  "sql_bind_all [] = Inr []"
| "sql_bind_all (v # vs) =
     (case sql_bind v of
        Inl e \<Rightarrow> Inl e
      | Inr b \<Rightarrow> (case sql_bind_all vs of Inl e \<Rightarrow> Inl e | Inr bs \<Rightarrow> Inr (b # bs)))"

definition cell :: "row \<Rightarrow> string \<Rightarrow> pyval" where
  "cell r c = (case map_of r c of None \<Rightarrow> PNone | Some v \<Rightarrow> v)"

text \<open>The condition \<^verbatim>\<open>WHERE id = ? AND organization_id = ?\<close> of every statement below.\<close>

definition row_matches :: "int \<Rightarrow> int \<Rightarrow> row \<Rightarrow> bool" where
  "row_matches i org r = (cell r ''id'' = PInt i \<and> cell r ''organization_id'' = PInt org)"

text \<open>
  \<^verbatim>\<open>SELECT c1 AS a1, ... FROM t WHERE id = ? AND organization_id = ?\<close> followed by
  \<^verbatim>\<open>fetchone()\<close>: the first matching row, with the selected columns under their aliases.
\<close>

definition sql_select_cols ::
  "db \<Rightarrow> string \<Rightarrow> (string \<times> string) list \<Rightarrow> int \<Rightarrow> int \<Rightarrow> exn + row option" where
  "sql_select_cols d t sel i org =
     (case map_of (tables d) t of
        None \<Rightarrow> Inl OperationalError
      | Some T \<Rightarrow>
          if \<not> set (map fst sel @ [''id'', ''organization_id'']) \<subseteq> set (t_columns T)
          then Inl OperationalError
          else (case sql_bind_all [PInt i, PInt org] of
                  Inl e \<Rightarrow> Inl e
                | Inr _ \<Rightarrow>
                    Inr (map_option (\<lambda>r. map (\<lambda>(c, a). (a, cell r c)) sel)
                           (find (row_matches i org) (t_rows T)))))"

text \<open>\<^verbatim>\<open>SELECT * FROM t WHERE id = ? AND organization_id = ?\<close>: every column of the table.\<close>

definition sql_select_star :: "db \<Rightarrow> string \<Rightarrow> int \<Rightarrow> int \<Rightarrow> exn + row option" where
  "sql_select_star d t i org =
     (case map_of (tables d) t of
        None \<Rightarrow> Inl OperationalError
      | Some T \<Rightarrow> sql_select_cols d t (map (\<lambda>c. (c, c)) (t_columns T)) i org)"

text \<open>The assignments of an \<^verbatim>\<open>UPDATE\<close>, applied to one row from left to right.\<close>

fun row_assign :: "row \<Rightarrow> (string \<times> pyval) list \<Rightarrow> row" where
  "row_assign r [] = r"
| "row_assign r ((k, v) # kvs) = row_assign (AList.update k v r) kvs"

text \<open>
  \<^verbatim>\<open>UPDATE t SET k1 = ?, ... WHERE id = ? AND organization_id = ?\<close>. The statement is
  compiled first (unknown table or column), then the parameters are bound in order, then
  every matching row is rewritten; a \<^verbatim>\<open>NULL\<close> for a \<^verbatim>\<open>NOT NULL\<close> column fails when a row
  is rewritten.
\<close>

definition sql_update ::
  "db \<Rightarrow> string \<Rightarrow> (string \<times> pyval) list \<Rightarrow> int \<Rightarrow> int \<Rightarrow> exn + db" where
  "sql_update d t assignments i org =
     (case map_of (tables d) t of
        None \<Rightarrow> Inl OperationalError
      | Some T \<Rightarrow>
          if \<not> set (map fst assignments @ [''id'', ''organization_id'']) \<subseteq> set (t_columns T)
          then Inl OperationalError
          else (case sql_bind_all (map snd assignments @ [PInt i, PInt org]) of
                  Inl e \<Rightarrow> Inl e
                | Inr bound \<Rightarrow>
                    let new = zip (map fst assignments) bound
                    in if (\<exists>r \<in> set (t_rows T). row_matches i org r)
                          \<and> (\<exists>(k, v) \<in> set new. v = PNone \<and> k \<in> set (t_notnull T))
                       then Inl IntegrityError
                       else Inr (d\<lparr>tables := AList.update t
                                   (T\<lparr>t_rows := map (\<lambda>r. if row_matches i org r then row_assign r new else r)
                                                   (t_rows T)\<rparr>)
                                   (tables d)\<rparr>)))"

text \<open>\<^verbatim>\<open>DELETE FROM t WHERE id = ? AND organization_id = ?\<close>.\<close>

definition sql_delete :: "db \<Rightarrow> string \<Rightarrow> int \<Rightarrow> int \<Rightarrow> exn + db" where
  "sql_delete d t i org =
     (case map_of (tables d) t of
        None \<Rightarrow> Inl OperationalError
      | Some T \<Rightarrow>
          if \<not> {''id'', ''organization_id''} \<subseteq> set (t_columns T) then Inl OperationalError
          else (case sql_bind_all [PInt i, PInt org] of
                  Inl e \<Rightarrow> Inl e
                | Inr _ \<Rightarrow>
                    Inr (d\<lparr>tables := AList.update t
                            (T\<lparr>t_rows := filter (\<lambda>r. \<not> row_matches i org r) (t_rows T)\<rparr>)
                            (tables d)\<rparr>)))"

text \<open>
  \<^verbatim>\<open>INSERT INTO t (c1, ...) VALUES (?, ...)\<close> with the primary key \<^verbatim>\<open>id\<close> among the given
  columns (the only insert of the subsystem gives it): a column that is not given
  takes its default, a \<^verbatim>\<open>NULL\<close> in a \<^verbatim>\<open>NOT NULL\<close> column and an \<^verbatim>\<open>id\<close> that a row of the
  table already has are constraint violations.
\<close>

definition sql_insert :: "db \<Rightarrow> string \<Rightarrow> string list \<Rightarrow> pyval list \<Rightarrow> exn + db" where
  "sql_insert d t names vals =
     (case map_of (tables d) t of
        None \<Rightarrow> Inl OperationalError
      | Some T \<Rightarrow>
          if \<not> set names \<subseteq> set (t_columns T) then Inl OperationalError
          else (case sql_bind_all vals of
                  Inl e \<Rightarrow> Inl e
                | Inr bound \<Rightarrow>
                    let given = zip names bound;
                        new = map (\<lambda>c. (c, case map_of given c of
                                              None \<Rightarrow> dict_get (t_defaults T) c
                                            | Some v \<Rightarrow> v)) (t_columns T)
                    in if (\<exists>c \<in> set (t_notnull T). cell new c = PNone)
                          \<or> (\<exists>r \<in> set (t_rows T). cell r ''id'' = cell new ''id'')
                       then Inl IntegrityError
                       else Inr (d\<lparr>tables := AList.update t (T\<lparr>t_rows := t_rows T @ [new]\<rparr>)
                                   (tables d)\<rparr>)))"

text \<open>\<^verbatim>\<open>table_columns\<close> (line 2617): \<^verbatim>\<open>PRAGMA table_info\<close> lists nothing for an unknown table.\<close>

definition table_columns :: "db \<Rightarrow> string \<Rightarrow> string list" where
  "table_columns d t = (case map_of (tables d) t of None \<Rightarrow> [] | Some T \<Rightarrow> t_columns T)"

text \<open>
  \<^verbatim>\<open>SELECT id, action, entity, entity_id, details FROM audit_log WHERE id = ? AND
  organization_id = ?\<close>, the first statement of \<^verbatim>\<open>rollback_audit_entry\<close>.
\<close>

definition sql_select_audit :: "db \<Rightarrow> int \<Rightarrow> int \<Rightarrow> exn + audit_row option" where
  "sql_select_audit d audit_id org =
     (case sql_bind_all [PInt audit_id, PInt org] of
        Inl e \<Rightarrow> Inl e
      | Inr _ \<Rightarrow>
          Inr (find (\<lambda>a. a_id a = audit_id \<and> a_organization_id a = Some org) (audit_log d)))"

section \<open>Policy registry, allow-list and ledger writer\<close>

record policy =
  p_label :: string
  p_table :: string
  p_title_field :: string
  p_status_field :: string
  p_updated_field :: string
  p_min_role :: string
  p_ready_statuses :: "string list"

text \<open>\<^verbatim>\<open>DELETE_POLICY\<close> (line 524).\<close>

definition DELETE_POLICY :: "(string \<times> policy) list" where
  "DELETE_POLICY =
     [(''task'', \<lparr>p_label = ''Tasks'', p_table = ''tasks'', p_title_field = ''title'',
         p_status_field = ''status'', p_updated_field = ''updated_at'', p_min_role = ''student'',
         p_ready_statuses = [''Cancelled'']\<rparr>),
      (''project'', \<lparr>p_label = ''Projects'', p_table = ''projects'', p_title_field = ''name'',
         p_status_field = ''status'', p_updated_field = ''updated_at'', p_min_role = ''staff'',
         p_ready_statuses = [''Cancelled'']\<rparr>),
      (''intake'', \<lparr>p_label = ''Intake'', p_table = ''intake_requests'', p_title_field = ''title'',
         p_status_field = ''status'', p_updated_field = ''updated_at'', p_min_role = ''staff'',
         p_ready_statuses = [''Rejected'']\<rparr>),
      (''asset'', \<lparr>p_label = ''Assets'', p_table = ''equipment_assets'', p_title_field = ''name'',
         p_status_field = ''status'', p_updated_field = ''updated_at'', p_min_role = ''staff'',
         p_ready_statuses = [''Down'']\<rparr>),
      (''consumable'', \<lparr>p_label = ''Consumables'', p_table = ''consumables'', p_title_field = ''name'',
         p_status_field = ''status'', p_updated_field = ''updated_at'', p_min_role = ''staff'',
         p_ready_statuses = [''Out'']\<rparr>),
      (''partnership'', \<lparr>p_label = ''Partnerships'', p_table = ''partnerships'',
         p_title_field = ''partner_name'', p_status_field = ''stage'', p_updated_field = ''updated_at'',
         p_min_role = ''staff'', p_ready_statuses = [''Closed'']\<rparr>)]"

text \<open>\<^verbatim>\<open>delete_policy_for_entity\<close> (line 3591).\<close>

definition delete_policy_for_entity :: "string \<Rightarrow> policy option" where
  "delete_policy_for_entity entity = map_of DELETE_POLICY (py_lower (py_strip entity))"

text \<open>\<^verbatim>\<open>policy.get("updated_field") or "updated_at"\<close>.\<close>

definition updated_field_of :: "policy \<Rightarrow> string" where
  "updated_field_of pol = (if p_updated_field pol = [] then ''updated_at'' else p_updated_field pol)"

text \<open>\<^verbatim>\<open>AUDIT_ROLLBACK_TABLES\<close> (line 2527), the reversibility allow-list.\<close>

definition AUDIT_ROLLBACK_TABLES :: "string list" where
  "AUDIT_ROLLBACK_TABLES =
     [''tasks'', ''projects'', ''intake_requests'', ''equipment_assets'', ''consumables'',
      ''partnerships'', ''meeting_agendas'', ''meeting_items'', ''teams'', ''spaces'',
      ''role_nav_preferences'', ''field_configs'']"

text \<open>
  \<^verbatim>\<open>_snapshot_value\<close> and \<^verbatim>\<open>snapshot_row\<close> (lines 2543 to 2552). The SQLite driver returns
  no \<^verbatim>\<open>datetime\<close> or \<^verbatim>\<open>date\<close> object, so every value of the model takes the second branch.
\<close>

definition snapshot_value :: "pyval \<Rightarrow> pyval" where
  "snapshot_value v = v"

definition snapshot_row :: "row option \<Rightarrow> pydict option" where
  "snapshot_row r = map_option (map (\<lambda>(key, v). (key, snapshot_value v))) r"

text \<open>
  \<^verbatim>\<open>log_action\<close> (line 2512): one \<^verbatim>\<open>INSERT\<close> into \<^verbatim>\<open>audit_log\<close>; the new id is one more than
  the largest id the table holds or has ever handed out.
\<close>

definition next_audit_id :: "db \<Rightarrow> int" where
  "next_audit_id d = 1 + fold max (map a_id (audit_log d)) (audit_seq d)"

definition log_action ::
  "db \<Rightarrow> int option \<Rightarrow> int option \<Rightarrow> string \<Rightarrow> string option \<Rightarrow> string option
     \<Rightarrow> string option \<Rightarrow> datetime \<Rightarrow> exn + db" where
  "log_action d organization_id user_id action entity entity_id details now =
     (case sql_bind_all [opt_int organization_id, opt_int user_id] of
        Inl e \<Rightarrow> Inl e
      | Inr _ \<Rightarrow>
          Inr (d\<lparr>audit_log := audit_log d @
                   [\<lparr>a_id = next_audit_id d, a_organization_id = organization_id,
                     a_user_id = user_id, a_action = action, a_entity = entity,
                     a_entity_id = entity_id, a_details = details, a_created_at = iso now\<rparr>],
                 audit_seq := next_audit_id d\<rparr>))"

text \<open>
  \<^verbatim>\<open>log_change_with_rollback\<close> (line 2582). \<open>change_payload\<close> is the dict the function
  builds; what it stores is the first 14000 characters of the dict's JSON text.
\<close>

definition change_payload ::
  "string \<Rightarrow> pyval \<Rightarrow> pydict option \<Rightarrow> pydict option \<Rightarrow> string \<Rightarrow> string \<Rightarrow> pydict" where
  "change_payload table entity_id before after summary source =
     (let payload = [(''source'', PStr source), (''summary'', PStr (take 220 summary)),
                     (''before'', opt_dict before), (''after'', opt_dict after)]
      in if table \<in> set AUDIT_ROLLBACK_TABLES
         then dict_set payload ''rollback''
                (PDict [(''table'', PStr table), (''entity_id'', PStr (py_str entity_id)),
                        (''before'', opt_dict before)])
         else payload)"

definition log_change_with_rollback ::
  "db \<Rightarrow> int \<Rightarrow> int \<Rightarrow> string \<Rightarrow> string \<Rightarrow> pyval \<Rightarrow> pydict option \<Rightarrow> pydict option
     \<Rightarrow> string \<Rightarrow> string \<Rightarrow> datetime \<Rightarrow> exn + db" where
  "log_change_with_rollback d org_id user_id action table entity_id before after summary source now =
     log_action d (Some org_id) (Some user_id) action (Some table) (Some (py_str entity_id))
       (Some (take 14000 (json_dumps (PDict (change_payload table entity_id before after summary source)))))
       now"

section \<open>Soft-delete lifecycle\<close>

text \<open>
  Each operation returns what the Python function returns (\<open>Inr (ok, reason)\<close>) or the
  exception it lets through (\<open>Inl\<close>), and the store as the call leaves it.
\<close>

type_synonym outcome = "(exn + bool \<times> string) \<times> db"

text \<open>\<^verbatim>\<open>entity_soft_delete\<close> (line 3595).\<close>

definition entity_soft_delete ::
  "(nat \<Rightarrow> datetime) \<Rightarrow> db \<Rightarrow> int \<Rightarrow> int \<Rightarrow> string \<Rightarrow> int \<Rightarrow> outcome" where
  "entity_soft_delete clock d org_id actor_user_id entity item_id =
     (case delete_policy_for_entity entity of
        None \<Rightarrow> (Inr (False, ''invalid_entity''), d)
      | Some pol \<Rightarrow>
          let table = p_table pol;
              title_field = p_title_field pol;
              status_field = p_status_field pol;
              updated_field = updated_field_of pol;
              ready_statuses = p_ready_statuses pol
          in (case sql_select_cols d table
                     [(''id'', ''id''), (title_field, ''title''), (status_field, ''status''),
                      (''deleted_at'', ''deleted_at'')] item_id org_id of
                Inl e \<Rightarrow> (Inl e, d)
              | Inr None \<Rightarrow> (Inr (False, ''not_found''), d)
              | Inr (Some row) \<Rightarrow>
                  if py_truthy (dict_get row ''deleted_at'') then (Inr (False, ''already_deleted''), d)
                  else
                    let current_status = py_str (py_or (dict_get row ''status'') (PStr []))
                    in if ready_statuses \<noteq> [] \<and> current_status \<notin> set ready_statuses
                       then (Inr (False, ''status_required:'' @ join ''|'' ready_statuses), d)
                       else
                         (case sql_select_star d table item_id org_id of
                            Inl e \<Rightarrow> (Inl e, d)
                          | Inr r_before \<Rightarrow>
                              let full_before = snapshot_row r_before
                              in (case sql_update d table
                                         [(''deleted_at'', PStr (iso (clock 0))),
                                          (''deleted_by_user_id'', PInt actor_user_id),
                                          (updated_field, PStr (iso (clock 1)))] item_id org_id of
                                    Inl e \<Rightarrow> (Inl e, d)
                                  | Inr d1 \<Rightarrow>
                                      (case sql_select_star d1 table item_id org_id of
                                         Inl e \<Rightarrow> (Inl e, d1)
                                       | Inr r_after \<Rightarrow>
                                           let full_after = snapshot_row r_after
                                           in (case log_change_with_rollback d1 org_id actor_user_id
                                                      ''item_soft_deleted'' table (PInt item_id)
                                                      full_before full_after
                                                      (p_label pol @ '': '' @ py_str (dict_get row ''title''))
                                                      ''delete-workflow'' (clock 2) of
                                                 Inl e \<Rightarrow> (Inl e, d1)
                                               | Inr d2 \<Rightarrow> (Inr (True, ''ok''), d2)))))))"

text \<open>\<^verbatim>\<open>restore_soft_deleted_entity\<close> (line 3652).\<close>

definition restore_soft_deleted_entity ::
  "(nat \<Rightarrow> datetime) \<Rightarrow> db \<Rightarrow> int \<Rightarrow> int \<Rightarrow> string \<Rightarrow> int \<Rightarrow> outcome" where
  "restore_soft_deleted_entity clock d org_id actor_user_id entity item_id =
     (case delete_policy_for_entity entity of
        None \<Rightarrow> (Inr (False, ''invalid_entity''), d)
      | Some pol \<Rightarrow>
          let table = p_table pol;
              updated_field = updated_field_of pol
          in (case sql_select_cols d table [(''id'', ''id''), (''deleted_at'', ''deleted_at'')]
                     item_id org_id of
                Inl e \<Rightarrow> (Inl e, d)
              | Inr None \<Rightarrow> (Inr (False, ''not_found''), d)
              | Inr (Some row) \<Rightarrow>
                  if \<not> py_truthy (dict_get row ''deleted_at'') then (Inr (False, ''not_deleted''), d)
                  else
                    (case sql_select_star d table item_id org_id of
                       Inl e \<Rightarrow> (Inl e, d)
                     | Inr r_before \<Rightarrow>
                         let full_before = snapshot_row r_before
                         in (case sql_update d table
                                    [(''deleted_at'', PNone), (''deleted_by_user_id'', PNone),
                                     (updated_field, PStr (iso (clock 0)))] item_id org_id of
                               Inl e \<Rightarrow> (Inl e, d)
                             | Inr d1 \<Rightarrow>
                                 (case sql_select_star d1 table item_id org_id of
                                    Inl e \<Rightarrow> (Inl e, d1)
                                  | Inr r_after \<Rightarrow>
                                      let full_after = snapshot_row r_after
                                      in (case log_change_with_rollback d1 org_id actor_user_id
                                                 ''item_restored'' table (PInt item_id)
                                                 full_before full_after (p_label pol)
                                                 ''delete-workflow'' (clock 1) of
                                            Inl e \<Rightarrow> (Inl e, d1)
                                          | Inr d2 \<Rightarrow> (Inr (True, ''ok''), d2)))))))"

text \<open>\<^verbatim>\<open>purge_soft_deleted_entity\<close> (line 3703).\<close>

definition purge_soft_deleted_entity ::
  "(nat \<Rightarrow> datetime) \<Rightarrow> db \<Rightarrow> int \<Rightarrow> int \<Rightarrow> string \<Rightarrow> int \<Rightarrow> outcome" where
  "purge_soft_deleted_entity clock d org_id actor_user_id entity item_id =
     (case delete_policy_for_entity entity of
        None \<Rightarrow> (Inr (False, ''invalid_entity''), d)
      | Some pol \<Rightarrow>
          let table = p_table pol
          in (case sql_select_cols d table [(''id'', ''id''), (''deleted_at'', ''deleted_at'')]
                     item_id org_id of
                Inl e \<Rightarrow> (Inl e, d)
              | Inr None \<Rightarrow> (Inr (False, ''not_found''), d)
              | Inr (Some row) \<Rightarrow>
                  if \<not> py_truthy (dict_get row ''deleted_at'') then (Inr (False, ''not_deleted''), d)
                  else
                    (case sql_select_star d table item_id org_id of
                       Inl e \<Rightarrow> (Inl e, d)
                     | Inr r_before \<Rightarrow>
                         let full_before = snapshot_row r_before
                         in (case sql_delete d table item_id org_id of
                               Inl e \<Rightarrow> (Inl e, d)
                             | Inr d1 \<Rightarrow>
                                 (case log_change_with_rollback d1 org_id actor_user_id
                                        ''item_purged'' table (PInt item_id) full_before None
                                        (p_label pol) ''delete-workflow'' (clock 0) of
                                    Inl e \<Rightarrow> (Inl e, d1)
                                  | Inr d2 \<Rightarrow> (Inr (True, ''ok''), d2))))))"

section \<open>Rollback engine\<close>

text \<open>
  \<^verbatim>\<open>parse_audit_details\<close> (line 2555). \<^verbatim>\<open>json.loads\<close> is a parameter of the model: \<open>loads\<close>
  gives the decoded document, or \<open>None\<close> where \<^verbatim>\<open>json.loads\<close> raises.
\<close>

definition parse_audit_details :: "(string \<Rightarrow> pyval option) \<Rightarrow> string option \<Rightarrow> pydict" where
  "parse_audit_details loads details =
     (let raw = py_strip (py_str (py_or (opt_str details) (PStr [])))
      in if raw = [] then []
         else (case loads raw of
                 Some (PDict parsed) \<Rightarrow> parsed
               | _ \<Rightarrow> []))"

text \<open>
  \<^verbatim>\<open>rollback_audit_entry\<close> (line 2621) is modelled in two parts. \<open>rollback_apply\<close> is its
  second half, from \<^verbatim>\<open>columns = set(table_columns(conn, table))\<close> (line 2642) to the end:
  it gets the validated table, the target id and the snapshot (\<open>None\<close> for the Python
  \<^verbatim>\<open>None\<close>, that is for an entry that recorded a creation). Two of its local values have
  a definition of their own: \<open>create_rollback_assignments\<close> is the \<^verbatim>\<open>assignments\<close> and
  \<^verbatim>\<open>params\<close> of lines 2655 to 2662 (the two time stamps are the two \<^verbatim>\<open>iso()\<close> calls), and
  \<open>restore_values\<close> is the dict of lines 2682 to 2685.
\<close>

definition create_rollback_assignments :: "string list \<Rightarrow> int \<Rightarrow> string \<Rightarrow> string \<Rightarrow> pydict" where
  "create_rollback_assignments columns actor_user_id stamp0 stamp1 =
     [(''deleted_at'', PStr stamp0)]
     @ (if ''deleted_by_user_id'' \<in> set columns then [(''deleted_by_user_id'', PInt actor_user_id)] else [])
     @ (if ''updated_at'' \<in> set columns then [(''updated_at'', PStr stamp1)] else [])"

definition restore_values :: "string list \<Rightarrow> pydict \<Rightarrow> int \<Rightarrow> string \<Rightarrow> pydict" where
  "restore_values columns before org_id stamp =
     (let restore_values0 =
            map (\<lambda>k. (k, dict_get before k))
              (filter (\<lambda>k. k \<in> set columns \<and> k \<noteq> ''id'') (dict_keys before));
          restore_values1 = dict_set restore_values0 ''organization_id'' (PInt org_id)
      in if ''updated_at'' \<in> set columns
         then dict_set restore_values1 ''updated_at'' (PStr stamp)
         else restore_values1)"

definition rollback_apply ::
  "(nat \<Rightarrow> datetime) \<Rightarrow> db \<Rightarrow> int \<Rightarrow> int \<Rightarrow> int \<Rightarrow> string \<Rightarrow> int \<Rightarrow> pydict option \<Rightarrow> outcome" where
  "rollback_apply clock d org_id actor_user_id audit_id table entity_id before =
     (let columns = table_columns d table
      in if ''id'' \<notin> set columns \<or> ''organization_id'' \<notin> set columns
         then (Inr (False, ''Rollback target table is unsupported''), d)
         else
           (case sql_select_star d table entity_id org_id of
              Inl e \<Rightarrow> (Inl e, d)
            | Inr existing \<Rightarrow>
                (case before of
                   None \<Rightarrow>
                     if existing = None then (Inr (False, ''Target row no longer exists''), d)
                     else
                       (case (if ''deleted_at'' \<in> set columns
                              then sql_update d table
                                     (create_rollback_assignments columns actor_user_id
                                        (iso (clock 0)) (iso (clock 1)))
                                     entity_id org_id
                              else sql_delete d table entity_id org_id) of
                          Inl e \<Rightarrow> (Inl e, d)
                        | Inr d1 \<Rightarrow>
                            (case log_action d1 (Some org_id) (Some actor_user_id)
                                   ''audit_rollback_applied'' (Some table) (Some (str_of_int entity_id))
                                   (Some (''Reverted create from audit #'' @ str_of_int audit_id))
                                   (clock (if ''deleted_at'' \<in> set columns
                                           then (if ''updated_at'' \<in> set columns then 2 else 1)
                                           else 0)) of
                               Inl e \<Rightarrow> (Inl e, d1)
                             | Inr d2 \<Rightarrow> (Inr (True, ''Rollback applied''), d2)))
                 | Some snapshot \<Rightarrow>
                     let restore_values = restore_values columns snapshot org_id (iso (clock 0));
                         log_time = clock (if ''updated_at'' \<in> set columns then 1 else 0);
                         finish = (\<lambda>d1.
                           case log_action d1 (Some org_id) (Some actor_user_id)
                                  ''audit_rollback_applied'' (Some table) (Some (str_of_int entity_id))
                                  (Some (''Restored snapshot from audit #'' @ str_of_int audit_id))
                                  log_time of
                             Inl e \<Rightarrow> (Inl e, d1)
                           | Inr d2 \<Rightarrow> (Inr (True, ''Rollback applied''), d2))
                     in if existing \<noteq> None
                        then
                          if restore_values = []
                          then (Inr (False, ''No restorable fields on this entry''), d)
                          else (case sql_update d table restore_values entity_id org_id of
                                  Inl e \<Rightarrow> (Inl e, d)
                                | Inr d1 \<Rightarrow> finish d1)
                        else
                          let restore_values2 = dict_set restore_values ''id'' (PInt entity_id);
                              insert_cols = filter (\<lambda>k. k \<in> set columns) (map fst restore_values2);
                              insert_vals = map (dict_get restore_values2) insert_cols
                          in (case sql_insert d table insert_cols insert_vals of
                                Inl e \<Rightarrow> (Inl e, d)
                              | Inr d1 \<Rightarrow> finish d1))))"

text \<open>
  The first half (lines 2622 to 2640): load the entry, read its rollback object, validate.
  \<open>rollback_table\<close> is the expression of line 2632 and \<open>rollback_entity_id\<close> the one of
  line 2635.
\<close>

definition rollback_table :: "pydict \<Rightarrow> audit_row \<Rightarrow> string" where
  "rollback_table rollback row =
     py_strip (py_str (py_or (dict_get rollback ''table'') (py_or (opt_str (a_entity row)) (PStr []))))"

definition rollback_entity_id :: "pydict \<Rightarrow> audit_row \<Rightarrow> int option" where
  "rollback_entity_id rollback row =
     to_int (Some (py_str (py_or (dict_get rollback ''entity_id'')
                             (py_or (opt_str (a_entity_id row)) (PStr [])))))"

definition rollback_audit_entry ::
  "(string \<Rightarrow> pyval option) \<Rightarrow> (nat \<Rightarrow> datetime) \<Rightarrow> db \<Rightarrow> int \<Rightarrow> int \<Rightarrow> int \<Rightarrow> outcome" where
  "rollback_audit_entry loads clock d org_id actor_user_id audit_id =
     (case sql_select_audit d audit_id org_id of
        Inl e \<Rightarrow> (Inl e, d)
      | Inr None \<Rightarrow> (Inr (False, ''Audit entry not found''), d)
      | Inr (Some row) \<Rightarrow>
          let details = parse_audit_details loads (a_details row)
          in (case dict_get details ''rollback'' of
                PDict rollback \<Rightarrow>
                  let table = rollback_table rollback row
                  in if table \<notin> set AUDIT_ROLLBACK_TABLES
                     then (Inr (False, ''Rollback table is not allowed''), d)
                     else
                       (case rollback_entity_id rollback row of
                          None \<Rightarrow> (Inr (False, ''Rollback target id is invalid''), d)
                        | Some entity_id \<Rightarrow>
                            (case dict_get rollback ''before'' of
                               PNone \<Rightarrow>
                                 rollback_apply clock d org_id actor_user_id audit_id table entity_id None
                             | PDict snapshot \<Rightarrow>
                                 rollback_apply clock d org_id actor_user_id audit_id table entity_id
                                   (Some snapshot)
                             | _ \<Rightarrow> (Inr (False, ''Rollback snapshot is invalid''), d)))
              | _ \<Rightarrow> (Inr (False, ''This audit entry cannot be rolled back''), d)))"

section \<open>Observations used in the statements\<close>

text \<open>Whether a table holds a row with the given id for the given tenant.\<close>

definition has_record :: "db \<Rightarrow> string \<Rightarrow> int \<Rightarrow> int \<Rightarrow> bool" where
  "has_record d t i org =
     (case map_of (tables d) t of None \<Rightarrow> False | Some T \<Rightarrow> list_ex (row_matches i org) (t_rows T))"

text \<open>A cell of the first row with the given id for the given tenant.\<close>

definition lookup_cell :: "db \<Rightarrow> string \<Rightarrow> int \<Rightarrow> int \<Rightarrow> string \<Rightarrow> pyval option" where
  "lookup_cell d t i org c =
     (case map_of (tables d) t of
        None \<Rightarrow> None
      | Some T \<Rightarrow> map_option (\<lambda>r. cell r c) (find (row_matches i org) (t_rows T)))"

text \<open>
  The tenant's ledger holds an entry with the given id, and the entry's details decode to
  a document whose \<^verbatim>\<open>rollback\<close> member is the given object.
\<close>

definition rollback_entry ::
  "(string \<Rightarrow> pyval option) \<Rightarrow> db \<Rightarrow> int \<Rightarrow> int \<Rightarrow> audit_row \<Rightarrow> pydict \<Rightarrow> bool" where
  "rollback_entry loads d org_id audit_id row rollback =
     (sqlite_int audit_id \<and> sqlite_int org_id
      \<and> find (\<lambda>a. a_id a = audit_id \<and> a_organization_id a = Some org_id) (audit_log d) = Some row
      \<and> dict_get (parse_audit_details loads (a_details row)) ''rollback'' = PDict rollback)"

text \<open>The results of \<open>n\<close> calls of purge, one after the other, and the store they leave.\<close>

fun purge_calls ::
  "nat \<Rightarrow> (nat \<Rightarrow> datetime) \<Rightarrow> db \<Rightarrow> int \<Rightarrow> int \<Rightarrow> string \<Rightarrow> int
     \<Rightarrow> (exn + bool \<times> string) list \<times> db" where
  "purge_calls 0 clock d org_id actor_user_id entity item_id = ([], d)"
| "purge_calls (Suc n) clock d org_id actor_user_id entity item_id =
     (let (res, d1) = purge_soft_deleted_entity clock d org_id actor_user_id entity item_id;
          (rest, d2) = purge_calls n clock d1 org_id actor_user_id entity item_id
      in (res # rest, d2))"






text \<open>The details text of the entry a ledger write has appended.\<close>

definition written_details :: "exn + db \<Rightarrow> string option" where
  "written_details res =
     (case res of Inl e \<Rightarrow> None | Inr d \<Rightarrow> (if audit_log d = [] then None else a_details (last (audit_log d))))"


section \<open>A sample store\<close>

text \<open>
  One tenant-1 task that was created and then edited, one soft-deleted task, one task of
  tenant 2, and five ledger entries: the creation and the edit of task 42 as the ledger
  writer stores them, an entry that names the table \<^verbatim>\<open>users\<close>, an entry whose rollback
  object has neither table nor id, and an entry whose snapshot has no column of the table.
\<close>

definition demo_clock :: "nat \<Rightarrow> datetime" where
  "demo_clock k = \<lparr>year = 2026, month = 11, day = 5, hour = 21, minute = 47, second = k\<rparr>"

definition demo_row_before :: row where
  "demo_row_before =
     [(''id'', PInt 42), (''organization_id'', PInt 1), (''title'', PStr ''Fix the printer''),
      (''status'', PStr ''Todo''), (''updated_at'', PStr ''2026-01-01T09:00:00+00:00''),
      (''deleted_at'', PNone), (''deleted_by_user_id'', PNone)]"

definition demo_row_active :: row where
  "demo_row_active =
     [(''id'', PInt 42), (''organization_id'', PInt 1), (''title'', PStr ''Fix printer''),
      (''status'', PStr ''Active''), (''updated_at'', PStr ''2026-02-01T09:00:00+00:00''),
      (''deleted_at'', PNone), (''deleted_by_user_id'', PNone)]"

definition demo_row_deleted :: row where
  "demo_row_deleted =
     [(''id'', PInt 43), (''organization_id'', PInt 1), (''title'', PStr ''Order filament''),
      (''status'', PStr ''Cancelled''), (''updated_at'', PStr ''2026-03-01T09:00:00+00:00''),
      (''deleted_at'', PStr ''2026-03-01T09:00:00+00:00''), (''deleted_by_user_id'', PInt 7)]"

definition demo_row_other :: row where
  "demo_row_other =
     [(''id'', PInt 44), (''organization_id'', PInt 2), (''title'', PStr ''Other tenant''),
      (''status'', PStr ''Active''), (''updated_at'', PStr ''2026-03-02T09:00:00+00:00''),
      (''deleted_at'', PNone), (''deleted_by_user_id'', PNone)]"

definition demo_tasks :: table where
  "demo_tasks =
     \<lparr>t_columns = [''id'', ''organization_id'', ''title'', ''status'', ''updated_at'', ''deleted_at'',
                   ''deleted_by_user_id''],
      t_notnull = [''organization_id'', ''title'', ''status'', ''updated_at''],
      t_defaults = [],
      t_rows = [demo_row_active, demo_row_deleted, demo_row_other]\<rparr>"

definition demo_text_1 :: string where
  \<open>demo_text_1 =
     ''{"source": "api", "summary": "Task created: Fix the printer", "before": null'' @
     '', "after": {"id": 42, "organization_id": 1, "title": "Fix the printer", "sta'' @
     ''tus": "Todo", "updated_at": "2026-01-01T09:00:00+00:00", "deleted_at": null,'' @
     '' "deleted_by_user_id": null}, "rollback": {"table": "tasks", "entity_id": "4'' @
     ''2", "before": null}}''\<close>

definition demo_text_2 :: string where
  \<open>demo_text_2 =
     ''{"source": "api", "summary": "Task saved: Fix printer", "before": {"id": 42,'' @
     '' "organization_id": 1, "title": "Fix the printer", "status": "Todo", "update'' @
     ''d_at": "2026-01-01T09:00:00+00:00", "deleted_at": null, "deleted_by_user_id"'' @
     '': null}, "after": {"id": 42, "organization_id": 1, "title": "Fix printer", "'' @
     ''status": "Active", "updated_at": "2026-02-01T09:00:00+00:00", "deleted_at": '' @
     ''null, "deleted_by_user_id": null}, "rollback": {"table": "tasks", "entity_id'' @
     ''": "42", "before": {"id": 42, "organization_id": 1, "title": "Fix the printe'' @
     ''r", "status": "Todo", "updated_at": "2026-01-01T09:00:00+00:00", "deleted_at'' @
     ''": null, "deleted_by_user_id": null}}}''\<close>

definition demo_text_3 :: string where
  \<open>demo_text_3 =
     ''{"source": "api", "summary": "crafted", "rollback": {"table": "users", "enti'' @
     ''ty_id": "42", "before": null}}''\<close>

definition demo_text_4 :: string where
  \<open>demo_text_4 =
     ''{"source": "import", "summary": "Task imported", "rollback": {"before": null'' @
     ''}}''\<close>

definition demo_text_5 :: string where
  \<open>demo_text_5 =
     ''{"source": "api", "summary": "legacy", "rollback": {"table": "tasks", "entit'' @
     ''y_id": "42", "before": {"legacy_code": 1}}}''\<close>

definition demo_long_snapshot :: pydict where
  "demo_long_snapshot = [(''title'', PStr (replicate 14000 CHR ''x''))]"

definition demo_rollback_1 :: pydict where
  "demo_rollback_1 = [(''table'', PStr ''tasks''), (''entity_id'', PStr ''42''), (''before'', PNone)]"

definition demo_rollback_2 :: pydict where
  "demo_rollback_2 =
     [(''table'', PStr ''tasks''), (''entity_id'', PStr ''42''), (''before'', PDict demo_row_before)]"

definition demo_rollback_3 :: pydict where
  "demo_rollback_3 = [(''table'', PStr ''users''), (''entity_id'', PStr ''42''), (''before'', PNone)]"

definition demo_rollback_4 :: pydict where
  "demo_rollback_4 = [(''before'', PNone)]"

definition demo_rollback_5 :: pydict where
  "demo_rollback_5 =
     [(''table'', PStr ''tasks''), (''entity_id'', PStr ''42''),
      (''before'', PDict [(''legacy_code'', PInt 1)])]"

definition demo_documents :: "pyval list" where
  "demo_documents =
     [PDict [(''source'', PStr ''api''), (''summary'', PStr ''Task created: Fix the printer''),
             (''before'', PNone), (''after'', PDict demo_row_before),
             (''rollback'', PDict demo_rollback_1)],
      PDict [(''source'', PStr ''api''), (''summary'', PStr ''Task saved: Fix printer''),
             (''before'', PDict demo_row_before), (''after'', PDict demo_row_active),
             (''rollback'', PDict demo_rollback_2)],
      PDict [(''source'', PStr ''api''), (''summary'', PStr ''crafted''),
             (''rollback'', PDict demo_rollback_3)],
      PDict [(''source'', PStr ''import''), (''summary'', PStr ''Task imported''),
             (''rollback'', PDict demo_rollback_4)],
      PDict [(''source'', PStr ''api''), (''summary'', PStr ''legacy''),
             (''rollback'', PDict demo_rollback_5)]]"

text \<open>A decoder that reads the five texts of the sample ledger and rejects every other text.\<close>

definition demo_loads :: "string \<Rightarrow> pyval option" where
  "demo_loads text =
     map_of (zip [demo_text_1, demo_text_2, demo_text_3, demo_text_4, demo_text_5] demo_documents) text"

definition demo_entry :: "int \<Rightarrow> string \<Rightarrow> string \<Rightarrow> string \<Rightarrow> audit_row" where
  "demo_entry n action entity details =
     \<lparr>a_id = n, a_organization_id = Some 1, a_user_id = Some 7, a_action = action,
      a_entity = Some entity, a_entity_id = Some ''42'', a_details = Some details,
      a_created_at = ''2026-02-01T09:00:00+00:00''\<rparr>"

definition demo_db :: db where
  "demo_db =
     \<lparr>tables = [(''tasks'', demo_tasks)],
      audit_log = [demo_entry 1 ''task_created'' ''tasks'' demo_text_1,
                   demo_entry 2 ''task_saved'' ''tasks'' demo_text_2,
                   demo_entry 3 ''task_saved'' ''users'' demo_text_3,
                   demo_entry 4 ''task_imported'' ''tasks'' demo_text_4,
                   demo_entry 5 ''task_saved'' ''tasks'' demo_text_5],
      audit_seq = 5\<rparr>"

section \<open>Facts about the store operations\<close>

lemma policy_cases:
  assumes "delete_policy_for_entity entity = Some pol"
  shows "pol \<in> snd ` set DELETE_POLICY"
  using assms unfolding delete_policy_for_entity_def
  by (metis map_of_SomeD image_eqI snd_conv)

lemma policy_facts:
  assumes "delete_policy_for_entity entity = Some pol"
  shows "updated_field_of pol = ''updated_at''"
    and "p_table pol \<in> set AUDIT_ROLLBACK_TABLES"
    and "p_status_field pol \<in> {''status'', ''stage''}"
  using policy_cases[OF assms]
  by (auto simp: DELETE_POLICY_def updated_field_of_def AUDIT_ROLLBACK_TABLES_def)

lemma demo_task_policy:
  "delete_policy_for_entity ''task'' = Some (snd (DELETE_POLICY ! 0))"
  by (simp add: delete_policy_for_entity_def DELETE_POLICY_def py_lower_def py_strip_def
      py_isspace_def lower_char_def code_of_def)

lemma sql_bind_all_length: "sql_bind_all vs = Inr bs \<Longrightarrow> length bs = length vs"
  by (induction vs arbitrary: bs) (auto split: sum.splits)

lemma sql_bind_all_append:
  "sql_bind_all vs = Inr bs \<Longrightarrow> sql_bind_all ws = Inr cs \<Longrightarrow> sql_bind_all (vs @ ws) = Inr (bs @ cs)"
  by (induction vs arbitrary: bs) (auto split: sum.splits)


lemma sql_select_cols_find:
  assumes "map_of (tables d) t = Some T"
      and "set (map fst sel) \<subseteq> set (t_columns T)"
      and "''id'' \<in> set (t_columns T)" "''organization_id'' \<in> set (t_columns T)"
      and "sqlite_int i" "sqlite_int org"
  shows "sql_select_cols d t sel i org =
           Inr (map_option (\<lambda>r. map (\<lambda>(c, a). (a, cell r c)) sel) (find (row_matches i org) (t_rows T)))"
  using assms by (simp add: sql_select_cols_def)

lemma sql_select_star_find:
  assumes "map_of (tables d) t = Some T"
      and "''id'' \<in> set (t_columns T)" "''organization_id'' \<in> set (t_columns T)"
      and "sqlite_int i" "sqlite_int org"
  shows "sql_select_star d t i org =
           Inr (map_option (\<lambda>r. map (\<lambda>c. (c, cell r c)) (t_columns T)) (find (row_matches i org) (t_rows T)))"
proof -
  have "set (map fst (map (\<lambda>c. (c, c)) (t_columns T))) \<subseteq> set (t_columns T)"
    by auto
  then show ?thesis
    using assms sql_select_cols_find[OF assms(1), of "map (\<lambda>c. (c, c)) (t_columns T)" i org]
    by (simp add: sql_select_star_def comp_def)
qed

lemma sql_delete_ok:
  assumes "map_of (tables d) t = Some T"
      and "''id'' \<in> set (t_columns T)" "''organization_id'' \<in> set (t_columns T)"
      and "sqlite_int i" "sqlite_int org"
  shows "sql_delete d t i org =
           Inr (d\<lparr>tables := AList.update t
                  (T\<lparr>t_rows := filter (\<lambda>r. \<not> row_matches i org r) (t_rows T)\<rparr>) (tables d)\<rparr>)"
  using assms by (simp add: sql_delete_def)

lemma sql_update_ok:
  assumes tab: "map_of (tables d) t = Some T"
      and keys: "set (map fst assignments) \<subseteq> set (t_columns T)"
      and idc: "''id'' \<in> set (t_columns T)" "''organization_id'' \<in> set (t_columns T)"
      and ints: "sqlite_int i" "sqlite_int org"
      and bind: "sql_bind_all (map snd assignments) = Inr bound"
      and nn: "\<forall>(k, v) \<in> set (zip (map fst assignments) bound). v = PNone \<longrightarrow> k \<notin> set (t_notnull T)"
  shows "sql_update d t assignments i org =
           Inr (d\<lparr>tables := AList.update t
                  (T\<lparr>t_rows := map (\<lambda>r. if row_matches i org r
                                         then row_assign r (zip (map fst assignments) bound) else r)
                                  (t_rows T)\<rparr>) (tables d)\<rparr>)"
proof -
  have b2: "sql_bind_all [PInt i, PInt org] = Inr [PInt i, PInt org]"
    using ints by simp
  have ball: "sql_bind_all (map snd assignments @ [PInt i, PInt org]) = Inr (bound @ [PInt i, PInt org])"
    by (rule sql_bind_all_append[OF bind b2])
  have len: "length bound = length (map fst assignments)"
    using sql_bind_all_length[OF bind] by simp
  have z: "zip (map fst assignments) (bound @ [PInt i, PInt org]) = zip (map fst assignments) bound"
    using zip_append[of "map fst assignments" bound "[]" "[PInt i, PInt org]"] len by simp
  have nn': "\<not> (\<exists>(k, v) \<in> set (zip (map fst assignments) bound). v = PNone \<and> k \<in> set (t_notnull T))"
    using nn by auto
  show ?thesis
    unfolding sql_update_def using tab keys idc ball nn'
    by (simp add: z del: sql_bind_all.simps)
qed

lemma sql_update_plain:
  assumes tab: "map_of (tables d) t = Some T"
      and keys: "set (map fst assignments) \<subseteq> set (t_columns T)"
      and idc: "''id'' \<in> set (t_columns T)" "''organization_id'' \<in> set (t_columns T)"
      and ints: "sqlite_int i" "sqlite_int org"
      and bind: "sql_bind_all (map snd assignments) = Inr (map snd assignments)"
      and nn: "\<forall>(k, v) \<in> set assignments. v = PNone \<longrightarrow> k \<notin> set (t_notnull T)"
  shows "sql_update d t assignments i org =
           Inr (d\<lparr>tables := AList.update t
                  (T\<lparr>t_rows := map (\<lambda>r. if row_matches i org r then row_assign r assignments else r)
                                  (t_rows T)\<rparr>) (tables d)\<rparr>)"
proof -
  have "\<forall>(k, v) \<in> set (zip (map fst assignments) (map snd assignments)).
          v = PNone \<longrightarrow> k \<notin> set (t_notnull T)"
    using nn by (simp add: zip_map_fst_snd)
  from sql_update_ok[OF tab keys idc ints bind this] show ?thesis
    unfolding zip_map_fst_snd .
qed

lemma log_action_ok:
  assumes "sqlite_int org" "sqlite_int user"
  shows "log_action d (Some org) (Some user) action entity entity_id details now =
           Inr (d\<lparr>audit_log := audit_log d @
                   [\<lparr>a_id = next_audit_id d, a_organization_id = Some org, a_user_id = Some user,
                     a_action = action, a_entity = entity, a_entity_id = entity_id,
                     a_details = details, a_created_at = iso now\<rparr>],
                  audit_seq := next_audit_id d\<rparr>)"
  using assms by (simp add: log_action_def opt_int_def)

lemma log_change_ok:
  assumes "sqlite_int org" "sqlite_int user"
  shows "log_change_with_rollback d org user action t eid before after summary source now =
           Inr (d\<lparr>audit_log := audit_log d @
                   [\<lparr>a_id = next_audit_id d, a_organization_id = Some org, a_user_id = Some user,
                     a_action = action, a_entity = Some t, a_entity_id = Some (py_str eid),
                     a_details = Some (take 14000 (json_dumps
                        (PDict (change_payload t eid before after summary source)))),
                     a_created_at = iso now\<rparr>],
                  audit_seq := next_audit_id d\<rparr>)"
  unfolding log_change_with_rollback_def by (rule log_action_ok[OF assms])

section \<open>Soft-delete lifecycle: the claims\<close>

text \<open>
  Claim C4. For an entity type whose policy has \<^verbatim>\<open>ready_statuses = ["Cancelled"]\<close>,
  soft-delete of an existing record that is not deleted and whose status is \<^verbatim>\<open>Active\<close>
  returns \<^verbatim>\<open>status_required:Cancelled\<close> and leaves the whole store as it was: no field of
  the record changes, no deleted-marker is set, no ledger entry is written.
\<close>

theorem soft_delete_status_required:
  assumes pol: "delete_policy_for_entity entity = Some pol"
      and ready: "p_ready_statuses pol = [''Cancelled'']"
      and tab: "map_of (tables d) (p_table pol) = Some T"
      and cols: "{''id'', ''organization_id'', ''deleted_at'', p_title_field pol, p_status_field pol}
                   \<subseteq> set (t_columns T)"
      and ints: "sqlite_int item_id" "sqlite_int org_id"
      and row: "find (row_matches item_id org_id) (t_rows T) = Some r"
      and active: "\<not> py_truthy (cell r ''deleted_at'')"
      and status: "cell r (p_status_field pol) = PStr ''Active''"
  shows "entity_soft_delete clock d org_id actor_user_id entity item_id
           = (Inr (False, ''status_required:Cancelled''), d)"
proof -
  let ?sel = "[(''id'', ''id''), (p_title_field pol, ''title''), (p_status_field pol, ''status''),
               (''deleted_at'', ''deleted_at'')]"
  have sel: "sql_select_cols d (p_table pol) ?sel item_id org_id
               = Inr (Some (map (\<lambda>(c, a). (a, cell r c)) ?sel))"
    using sql_select_cols_find[OF tab, of ?sel item_id org_id] cols ints row by simp
  show ?thesis
    unfolding entity_soft_delete_def
    using pol ready sel active status
    by (simp add: Let_def dict_get_def py_or_def py_str_def)
qed

theorem soft_delete_status_required_witness:
  "entity_soft_delete demo_clock demo_db 1 7 ''task'' 42
     = (Inr (False, ''status_required:Cancelled''), demo_db)"
proof -
  let ?pol = "snd (DELETE_POLICY ! 0)"
  have ready: "p_ready_statuses ?pol = [''Cancelled'']"
    by (simp add: DELETE_POLICY_def)
  have tab: "map_of (tables demo_db) (p_table ?pol) = Some demo_tasks"
    by (simp add: DELETE_POLICY_def demo_db_def)
  have cols: "{''id'', ''organization_id'', ''deleted_at'', p_title_field ?pol, p_status_field ?pol}
                \<subseteq> set (t_columns demo_tasks)"
    by (simp add: DELETE_POLICY_def demo_tasks_def)
  have ints: "sqlite_int 42" "sqlite_int 1"
    by (simp_all add: sqlite_int_def)
  have row: "find (row_matches 42 1) (t_rows demo_tasks) = Some demo_row_active"
    by (simp add: demo_tasks_def demo_row_active_def row_matches_def cell_def)
  have active: "\<not> py_truthy (cell demo_row_active ''deleted_at'')"
    by (simp add: demo_row_active_def cell_def)
  have status: "cell demo_row_active (p_status_field ?pol) = PStr ''Active''"
    by (simp add: DELETE_POLICY_def demo_row_active_def cell_def)
  show ?thesis
    by (rule soft_delete_status_required[OF demo_task_policy ready tab cols ints row active status])
qed

lemma purge_not_found:
  assumes pol: "delete_policy_for_entity entity = Some pol"
      and tab: "map_of (tables d) (p_table pol) = Some T"
      and cols: "{''id'', ''organization_id'', ''deleted_at''} \<subseteq> set (t_columns T)"
      and ints: "sqlite_int item_id" "sqlite_int org_id"
      and none: "find (row_matches item_id org_id) (t_rows T) = None"
  shows "purge_soft_deleted_entity clock d org_id actor_user_id entity item_id = (Inr (False, ''not_found''), d)"
proof -
  have "sql_select_cols d (p_table pol) [(''id'', ''id''), (''deleted_at'', ''deleted_at'')] item_id org_id
          = Inr None"
    using sql_select_cols_find[OF tab, of "[(''id'', ''id''), (''deleted_at'', ''deleted_at'')]" item_id org_id]
      cols ints none by simp
  then show ?thesis
    unfolding purge_soft_deleted_entity_def using pol by (simp add: Let_def)
qed

lemma purge_ok:
  assumes pol: "delete_policy_for_entity entity = Some pol"
      and tab: "map_of (tables d) (p_table pol) = Some T"
      and cols: "{''id'', ''organization_id'', ''deleted_at''} \<subseteq> set (t_columns T)"
      and ints: "sqlite_int item_id" "sqlite_int org_id" "sqlite_int actor_user_id"
      and row: "find (row_matches item_id org_id) (t_rows T) = Some r"
      and deleted: "py_truthy (cell r ''deleted_at'')"
  shows "\<exists>d2. purge_soft_deleted_entity clock d org_id actor_user_id entity item_id = (Inr (True, ''ok''), d2)
          \<and> tables d2 = AList.update (p_table pol)
                 (T\<lparr>t_rows := filter (\<lambda>r. \<not> row_matches item_id org_id r) (t_rows T)\<rparr>) (tables d)
          \<and> (\<exists>entry. audit_log d2 = audit_log d @ [entry] \<and> a_action entry = ''item_purged'')"
proof -
  have sel: "sql_select_cols d (p_table pol) [(''id'', ''id''), (''deleted_at'', ''deleted_at'')] item_id org_id
      = Inr (Some [(''id'', cell r ''id''), (''deleted_at'', cell r ''deleted_at'')])"
    using sql_select_cols_find[OF tab, of "[(''id'', ''id''), (''deleted_at'', ''deleted_at'')]" item_id org_id]
      cols ints row by simp
  have star: "sql_select_star d (p_table pol) item_id org_id
      = Inr (Some (map (\<lambda>c. (c, cell r c)) (t_columns T)))"
    using sql_select_star_find[OF tab, of item_id org_id] cols ints row by simp
  have del: "sql_delete d (p_table pol) item_id org_id =
           Inr (d\<lparr>tables := AList.update (p_table pol)
              (T\<lparr>t_rows := filter (\<lambda>r. \<not> row_matches item_id org_id r) (t_rows T)\<rparr>) (tables d)\<rparr>)"
    using sql_delete_ok[OF tab, of item_id org_id] cols ints by simp
  show ?thesis
    unfolding purge_soft_deleted_entity_def
    using pol sel star del deleted ints
    by (simp add: Let_def dict_get_def log_change_ok)
qed

lemma purge_not_deleted:
  assumes pol: "delete_policy_for_entity entity = Some pol"
      and tab: "map_of (tables d) (p_table pol) = Some T"
      and cols: "{''id'', ''organization_id'', ''deleted_at''} \<subseteq> set (t_columns T)"
      and ints: "sqlite_int item_id" "sqlite_int org_id"
      and row: "find (row_matches item_id org_id) (t_rows T) = Some r"
      and active: "\<not> py_truthy (cell r ''deleted_at'')"
  shows "purge_soft_deleted_entity clock d org_id actor_user_id entity item_id = (Inr (False, ''not_deleted''), d)"
proof -
  have sel: "sql_select_cols d (p_table pol) [(''id'', ''id''), (''deleted_at'', ''deleted_at'')] item_id org_id
      = Inr (Some [(''id'', cell r ''id''), (''deleted_at'', cell r ''deleted_at'')])"
    using sql_select_cols_find[OF tab, of "[(''id'', ''id''), (''deleted_at'', ''deleted_at'')]" item_id org_id]
      cols ints row by simp
  show ?thesis
    unfolding purge_soft_deleted_entity_def
    using pol sel active
    by (simp add: Let_def dict_get_def)
qed

lemma purge_calls_not_found:
  assumes pol: "delete_policy_for_entity entity = Some pol"
      and tab: "map_of (tables d) (p_table pol) = Some T"
      and cols: "{''id'', ''organization_id'', ''deleted_at''} \<subseteq> set (t_columns T)"
      and ints: "sqlite_int item_id" "sqlite_int org_id"
      and none: "find (row_matches item_id org_id) (t_rows T) = None"
  shows "purge_calls n clock d org_id actor_user_id entity item_id
           = (replicate n (Inr (False, ''not_found'')), d)"
  by (induction n) (simp_all add: purge_not_found[OF assms])

text \<open>
  Claim C6. For a soft-deleted record, any number of purge calls in sequence return
  \<^verbatim>\<open>ok\<close> for the first call and \<^verbatim>\<open>not_found\<close> for every later one, and the table holds no
  row with that id for the tenant afterwards. For a record whose deleted-marker is unset,
  purge returns \<^verbatim>\<open>not_deleted\<close> and leaves the store as it was.
\<close>

theorem purge_is_terminal:
  assumes pol: "delete_policy_for_entity entity = Some pol"
      and tab: "map_of (tables d) (p_table pol) = Some T"
      and cols: "{''id'', ''organization_id'', ''deleted_at''} \<subseteq> set (t_columns T)"
      and ints: "sqlite_int item_id" "sqlite_int org_id" "sqlite_int actor_user_id"
      and row: "find (row_matches item_id org_id) (t_rows T) = Some r"
  shows "if py_truthy (cell r ''deleted_at'')
         then \<exists>d2. purge_calls (Suc n) clock d org_id actor_user_id entity item_id
                      = (Inr (True, ''ok'') # replicate n (Inr (False, ''not_found'')), d2)
                    \<and> \<not> has_record d2 (p_table pol) item_id org_id
         else purge_soft_deleted_entity clock d org_id actor_user_id entity item_id
                = (Inr (False, ''not_deleted''), d)"
proof (cases "py_truthy (cell r ''deleted_at'')")
  case False
  then show ?thesis using purge_not_deleted[OF pol tab cols ints(1,2) row] by simp
next
  case True
  let ?T1 = "T\<lparr>t_rows := filter (\<lambda>r. \<not> row_matches item_id org_id r) (t_rows T)\<rparr>"
  from purge_ok[OF pol tab cols ints row True, of clock]
  obtain d2 where first: "purge_soft_deleted_entity clock d org_id actor_user_id entity item_id
                            = (Inr (True, ''ok''), d2)"
    and tabs: "tables d2 = AList.update (p_table pol) ?T1 (tables d)"
    by blast
  have tab2: "map_of (tables d2) (p_table pol) = Some ?T1"
    by (simp add: tabs update_conv')
  have none: "find (row_matches item_id org_id) (t_rows ?T1) = None"
    by (simp add: find_None_iff)
  have cols2: "{''id'', ''organization_id'', ''deleted_at''} \<subseteq> set (t_columns ?T1)"
    using cols by simp
  have rest: "purge_calls n clock d2 org_id actor_user_id entity item_id
                = (replicate n (Inr (False, ''not_found'')), d2)"
    by (rule purge_calls_not_found[OF pol tab2 cols2 ints(1,2) none])
  have gone: "\<not> has_record d2 (p_table pol) item_id org_id"
    by (simp add: has_record_def tab2 list_ex_iff)
  show ?thesis using True first rest gone by simp
qed

theorem purge_is_terminal_witness:
  "(\<exists>d2. purge_calls 3 demo_clock demo_db 1 7 ''task'' 43
            = ([Inr (True, ''ok''), Inr (False, ''not_found''), Inr (False, ''not_found'')], d2)
          \<and> \<not> has_record d2 ''tasks'' 43 1)
   \<and> purge_soft_deleted_entity demo_clock demo_db 1 7 ''task'' 42 = (Inr (False, ''not_deleted''), demo_db)"
proof -
  let ?pol = "snd (DELETE_POLICY ! 0)"
  have tab: "map_of (tables demo_db) (p_table ?pol) = Some demo_tasks"
    by (simp add: DELETE_POLICY_def demo_db_def)
  have cols: "{''id'', ''organization_id'', ''deleted_at''} \<subseteq> set (t_columns demo_tasks)"
    by (simp add: demo_tasks_def)
  have ints: "sqlite_int 43" "sqlite_int 1" "sqlite_int 7" "sqlite_int 42"
    by (simp_all add: sqlite_int_def)
  have row43: "find (row_matches 43 1) (t_rows demo_tasks) = Some demo_row_deleted"
    by (simp add: demo_tasks_def demo_row_active_def demo_row_deleted_def row_matches_def cell_def)
  have row42: "find (row_matches 42 1) (t_rows demo_tasks) = Some demo_row_active"
    by (simp add: demo_tasks_def demo_row_active_def row_matches_def cell_def)
  have del43: "py_truthy (cell demo_row_deleted ''deleted_at'')"
    by (simp add: demo_row_deleted_def cell_def)
  have act42: "\<not> py_truthy (cell demo_row_active ''deleted_at'')"
    by (simp add: demo_row_active_def cell_def)
  have tname: "p_table ?pol = ''tasks''"
    by (simp add: DELETE_POLICY_def)
  have three: "Suc 2 = 3" by simp
  show ?thesis
    using purge_is_terminal[OF demo_task_policy tab cols ints(1,2,3) row43, of 2 demo_clock]
      purge_is_terminal[OF demo_task_policy tab cols ints(4,2,3) row42, of 0 demo_clock]
      del43 act42
    unfolding tname three
    by (simp add: numeral_2_eq_2)
qed

text \<open>
  Claim C8. For a soft-deleted record, restore returns \<^verbatim>\<open>ok\<close>, writes one ledger entry with
  action \<^verbatim>\<open>item_restored\<close>, and rewrites the record so that \<^verbatim>\<open>deleted_at\<close> and
  \<^verbatim>\<open>deleted_by_user_id\<close> are \<^verbatim>\<open>NULL\<close>, the updated-timestamp field holds the time of the
  call, and every other field, the status field among them, keeps its value. Rows that do
  not match the id and tenant, and all other tables, stay as they were.
\<close>

theorem restore_clears_marker:
  assumes pol: "delete_policy_for_entity entity = Some pol"
      and tab: "map_of (tables d) (p_table pol) = Some T"
      and cols: "{''id'', ''organization_id'', ''deleted_at'', ''deleted_by_user_id'', ''updated_at''}
                   \<subseteq> set (t_columns T)"
      and nullable: "''deleted_at'' \<notin> set (t_notnull T)" "''deleted_by_user_id'' \<notin> set (t_notnull T)"
      and ints: "sqlite_int item_id" "sqlite_int org_id" "sqlite_int actor_user_id"
      and row: "find (row_matches item_id org_id) (t_rows T) = Some r"
      and deleted: "py_truthy (cell r ''deleted_at'')"
  shows "\<exists>d2 T2 entry.
           restore_soft_deleted_entity clock d org_id actor_user_id entity item_id = (Inr (True, ''ok''), d2)
         \<and> audit_log d2 = audit_log d @ [entry] \<and> a_action entry = ''item_restored''
         \<and> map_of (tables d2) (p_table pol) = Some T2
         \<and> (\<forall>t. t \<noteq> p_table pol \<longrightarrow> map_of (tables d2) t = map_of (tables d) t)
         \<and> list_all2 (\<lambda>r0 r2.
               if row_matches item_id org_id r0
               then cell r2 ''deleted_at'' = PNone \<and> cell r2 ''deleted_by_user_id'' = PNone
                  \<and> cell r2 (updated_field_of pol) = PStr (iso (clock 0))
                  \<and> cell r2 (p_status_field pol) = cell r0 (p_status_field pol)
                  \<and> (\<forall>c. c \<notin> {''deleted_at'', ''deleted_by_user_id'', updated_field_of pol}
                          \<longrightarrow> cell r2 c = cell r0 c)
               else r2 = r0) (t_rows T) (t_rows T2)"
proof -
  let ?as = "[(''deleted_at'', PNone), (''deleted_by_user_id'', PNone), (''updated_at'', PStr (iso (clock 0)))]"
  let ?T2 = "T\<lparr>t_rows := map (\<lambda>r. if row_matches item_id org_id r then row_assign r ?as else r) (t_rows T)\<rparr>"
  let ?d1 = "d\<lparr>tables := AList.update (p_table pol) ?T2 (tables d)\<rparr>"
  have upd_field: "updated_field_of pol = ''updated_at''"
    by (rule policy_facts(1)[OF pol])
  have status: "p_status_field pol \<notin> {''deleted_at'', ''deleted_by_user_id'', ''updated_at''}"
    using policy_facts(3)[OF pol] by auto
  have sel: "sql_select_cols d (p_table pol) [(''id'', ''id''), (''deleted_at'', ''deleted_at'')] item_id org_id
      = Inr (Some [(''id'', cell r ''id''), (''deleted_at'', cell r ''deleted_at'')])"
    using sql_select_cols_find[OF tab, of "[(''id'', ''id''), (''deleted_at'', ''deleted_at'')]" item_id org_id]
      cols ints row by simp
  have star: "sql_select_star d (p_table pol) item_id org_id
      = Inr (Some (map (\<lambda>c. (c, cell r c)) (t_columns T)))"
    using sql_select_star_find[OF tab, of item_id org_id] cols ints row by simp
  have upd: "sql_update d (p_table pol) ?as item_id org_id = Inr ?d1"
  proof (rule sql_update_plain[OF tab])
    show "set (map fst ?as) \<subseteq> set (t_columns T)" using cols by simp
    show "\<forall>(k, v) \<in> set ?as. v = PNone \<longrightarrow> k \<notin> set (t_notnull T)" using nullable by simp
  qed (use cols ints in simp_all)
  have tab1: "map_of (tables ?d1) (p_table pol) = Some ?T2"
    by (simp add: update_conv')
  have "\<exists>row1. sql_select_star ?d1 (p_table pol) item_id org_id = Inr row1"
    using sql_select_star_find[OF tab1, of item_id org_id] cols ints by simp
  then obtain row1 where star1: "sql_select_star ?d1 (p_table pol) item_id org_id = Inr row1" ..
  have res: "\<exists>d2 entry. restore_soft_deleted_entity clock d org_id actor_user_id entity item_id
                 = (Inr (True, ''ok''), d2)
      \<and> audit_log d2 = audit_log d @ [entry] \<and> a_action entry = ''item_restored'' \<and> tables d2 = tables ?d1"
    unfolding restore_soft_deleted_entity_def
    using pol sel star upd star1 deleted ints upd_field
    by (simp add: Let_def dict_get_def log_change_ok)
  have frame: "list_all2 (\<lambda>r0 r2.
               if row_matches item_id org_id r0
               then cell r2 ''deleted_at'' = PNone \<and> cell r2 ''deleted_by_user_id'' = PNone
                  \<and> cell r2 (updated_field_of pol) = PStr (iso (clock 0))
                  \<and> cell r2 (p_status_field pol) = cell r0 (p_status_field pol)
                  \<and> (\<forall>c. c \<notin> {''deleted_at'', ''deleted_by_user_id'', updated_field_of pol}
                          \<longrightarrow> cell r2 c = cell r0 c)
               else r2 = r0) (t_rows T) (t_rows ?T2)"
    using status by (simp add: upd_field list_all2_map2 list_all2_same cell_def update_conv')
  have others: "\<forall>t. t \<noteq> p_table pol \<longrightarrow> map_of (tables ?d1) t = map_of (tables d) t"
    by (simp add: update_conv')
  from res obtain d2 entry where
    "restore_soft_deleted_entity clock d org_id actor_user_id entity item_id = (Inr (True, ''ok''), d2)"
    "audit_log d2 = audit_log d @ [entry]" "a_action entry = ''item_restored''" "tables d2 = tables ?d1"
    by blast
  then show ?thesis using tab1 frame others
    by (intro exI[of _ d2] exI[of _ ?T2] exI[of _ entry]) simp
qed

theorem restore_clears_marker_witness:
  "\<exists>d2. restore_soft_deleted_entity demo_clock demo_db 1 7 ''task'' 43 = (Inr (True, ''ok''), d2)
       \<and> lookup_cell d2 ''tasks'' 43 1 ''deleted_at'' = Some PNone
       \<and> lookup_cell d2 ''tasks'' 43 1 ''status'' = Some (PStr ''Cancelled'')"
proof -
  let ?pol = "snd (DELETE_POLICY ! 0)"
  have tab: "map_of (tables demo_db) (p_table ?pol) = Some demo_tasks"
    by (simp add: DELETE_POLICY_def demo_db_def)
  have cols: "{''id'', ''organization_id'', ''deleted_at'', ''deleted_by_user_id'', ''updated_at''}
                \<subseteq> set (t_columns demo_tasks)"
    by (simp add: demo_tasks_def)
  have nullable: "''deleted_at'' \<notin> set (t_notnull demo_tasks)" "''deleted_by_user_id'' \<notin> set (t_notnull demo_tasks)"
    by (simp_all add: demo_tasks_def)
  have ints: "sqlite_int 43" "sqlite_int 1" "sqlite_int 7"
    by (simp_all add: sqlite_int_def)
  have row43: "find (row_matches 43 1) (t_rows demo_tasks) = Some demo_row_deleted"
    by (simp add: demo_tasks_def demo_row_active_def demo_row_deleted_def row_matches_def cell_def)
  have del43: "py_truthy (cell demo_row_deleted ''deleted_at'')"
    by (simp add: demo_row_deleted_def cell_def)
  have tname: "p_table ?pol = ''tasks''" and sname: "p_status_field ?pol = ''status''"
    by (simp_all add: DELETE_POLICY_def)
  from restore_clears_marker[OF demo_task_policy tab cols nullable ints row43 del43, of demo_clock]
  obtain d2 T2 where res: "restore_soft_deleted_entity demo_clock demo_db 1 7 ''task'' 43 = (Inr (True, ''ok''), d2)"
    and tab2: "map_of (tables d2) ''tasks'' = Some T2"
    and rows: "list_all2 (\<lambda>r0 r2.
               if row_matches 43 1 r0
               then cell r2 ''deleted_at'' = PNone \<and> cell r2 ''deleted_by_user_id'' = PNone
                  \<and> cell r2 (updated_field_of ?pol) = PStr (iso (demo_clock 0))
                  \<and> cell r2 ''status'' = cell r0 ''status''
                  \<and> (\<forall>c. c \<notin> {''deleted_at'', ''deleted_by_user_id'', updated_field_of ?pol}
                          \<longrightarrow> cell r2 c = cell r0 c)
               else r2 = r0) (t_rows demo_tasks) (t_rows T2)"
    unfolding tname sname by blast
  from rows obtain a b c where T2rows: "t_rows T2 = [a, b, c]" and a: "a = demo_row_active"
    and b: "cell b ''deleted_at'' = PNone" "cell b ''status'' = cell demo_row_deleted ''status''"
           "cell b ''id'' = cell demo_row_deleted ''id''"
           "cell b ''organization_id'' = cell demo_row_deleted ''organization_id''"
    by (auto simp: demo_tasks_def list_all2_Cons1 row_matches_def cell_def demo_row_active_def
        demo_row_deleted_def updated_field_of_def DELETE_POLICY_def)
  have "find (row_matches 43 1) (t_rows T2) = Some b"
    using a b by (simp add: T2rows row_matches_def demo_row_active_def demo_row_deleted_def cell_def)
  then have "lookup_cell d2 ''tasks'' 43 1 ''deleted_at'' = Some PNone"
       "lookup_cell d2 ''tasks'' 43 1 ''status'' = Some (PStr ''Cancelled'')"
    using tab2 b by (simp_all add: lookup_cell_def demo_row_deleted_def cell_def)
  with res show ?thesis by blast
qed


section \<open>Rollback engine: the claims\<close>

lemma rollback_entry_select:
  assumes "rollback_entry loads d org_id audit_id row rollback"
  shows "sql_select_audit d audit_id org_id = Inr (Some row)"
    and "dict_get (parse_audit_details loads (a_details row)) ''rollback'' = PDict rollback"
  using assms by (simp_all add: rollback_entry_def sql_select_audit_def)

text \<open>
  Claim C1. When the rollback object of an entry names a table (the name is read with
  \<^verbatim>\<open>str\<close> and \<^verbatim>\<open>strip\<close>) that is not in the allow-list, rollback returns the
  table-not-allowed reason and leaves the store as it was, whatever else the payload holds.
\<close>

theorem rollback_table_not_allowed:
  assumes entry: "rollback_entry loads d org_id audit_id row rollback"
      and named: "py_truthy (dict_get rollback ''table'')"
      and notin: "py_strip (py_str (dict_get rollback ''table'')) \<notin> set AUDIT_ROLLBACK_TABLES"
  shows "rollback_audit_entry loads clock d org_id actor_user_id audit_id
           = (Inr (False, ''Rollback table is not allowed''), d)"
  unfolding rollback_audit_entry_def
  using rollback_entry_select[OF entry] named notin
  by (simp add: rollback_table_def py_or_def)

lemma demo_entry_3:
  "rollback_entry demo_loads demo_db 1 3 (demo_entry 3 ''task_saved'' ''users'' demo_text_3) demo_rollback_3"
  by code_simp

theorem rollback_table_not_allowed_witness:
  "dict_get demo_rollback_3 ''table'' = PStr ''users''
   \<and> rollback_audit_entry demo_loads demo_clock demo_db 1 7 3
       = (Inr (False, ''Rollback table is not allowed''), demo_db)"
proof -
  have t: "dict_get demo_rollback_3 ''table'' = PStr ''users''"
    by (simp add: demo_rollback_3_def dict_get_def)
  have named: "py_truthy (dict_get demo_rollback_3 ''table'')"
    by (simp add: t)
  have notin: "py_strip (py_str (dict_get demo_rollback_3 ''table'')) \<notin> set AUDIT_ROLLBACK_TABLES"
    unfolding t by code_simp
  show ?thesis
    using rollback_table_not_allowed[OF demo_entry_3 named notin] t by simp
qed







lemma map_of_row_assign:
  "distinct (map fst kvs) \<Longrightarrow>
     map_of (row_assign r kvs) c = (case map_of kvs c of None \<Rightarrow> map_of r c | Some v \<Rightarrow> Some v)"
proof (induction kvs arbitrary: r)
  case Nil
  then show ?case by simp
next
  case (Cons kv kvs)
  obtain k v where kv: "kv = (k, v)" by (cases kv)
  from Cons.prems have fresh: "map_of kvs k = None" and dist: "distinct (map fst kvs)"
    by (auto simp: kv map_of_eq_None_iff)
  have "map_of (row_assign (AList.update k v r) kvs) c
          = (case map_of kvs c of None \<Rightarrow> map_of (AList.update k v r) c | Some w \<Rightarrow> Some w)"
    by (rule Cons.IH[OF dist])
  then show ?case
    using fresh by (cases "c = k") (simp_all add: kv update_conv' split: option.splits)
qed

lemma cell_row_assign:
  "distinct (map fst kvs) \<Longrightarrow>
     cell (row_assign r kvs) c = (case map_of kvs c of None \<Rightarrow> cell r c | Some v \<Rightarrow> v)"
  by (simp add: cell_def map_of_row_assign split: option.splits)



lemma iso_nonempty: "iso ts \<noteq> []"
  by (simp add: iso_def pad2_def)



lemma table_columns_Some: "map_of (tables d) t = Some T \<Longrightarrow> table_columns d t = t_columns T"
  by (simp add: table_columns_def)



lemma find_SomeD: "find P xs = Some x \<Longrightarrow> x \<in> set xs \<and> P x"
  by (auto simp: find_Some_iff)

lemma find_map_same:
  "\<forall>x \<in> set xs. P (f x) = P x \<Longrightarrow> find P (map f xs) = map_option f (find P xs)"
  by (induction xs) auto

text \<open>The creation branch of the second half: the row exists and the snapshot is \<^verbatim>\<open>None\<close>.\<close>

lemma rollback_apply_create:
  assumes tab: "map_of (tables d) t = Some T"
      and idc: "''id'' \<in> set (t_columns T)" "''organization_id'' \<in> set (t_columns T)"
      and ints: "sqlite_int entity_id" "sqlite_int org_id" "sqlite_int actor_user_id"
      and row: "find (row_matches entity_id org_id) (t_rows T) = Some r"
  shows "\<exists>d2 entry as.
           rollback_apply clock d org_id actor_user_id audit_id t entity_id None
             = (Inr (True, ''Rollback applied''), d2)
         \<and> audit_log d2 = audit_log d @ [entry] \<and> a_action entry = ''audit_rollback_applied''
         \<and> tables d2 = AList.update t
              (T\<lparr>t_rows := (if ''deleted_at'' \<in> set (t_columns T)
                            then map (\<lambda>r. if row_matches entity_id org_id r then row_assign r as else r)
                                   (t_rows T)
                            else filter (\<lambda>r. \<not> row_matches entity_id org_id r) (t_rows T))\<rparr>)
              (tables d)
         \<and> distinct (map fst as)
         \<and> map_of as ''deleted_at'' = Some (PStr (iso (clock 0)))
         \<and> set (map fst as) \<subseteq> {''deleted_at'', ''deleted_by_user_id'', ''updated_at''}"
proof -
  let ?cols = "t_columns T"
  let ?as = "create_rollback_assignments ?cols actor_user_id (iso (clock 0)) (iso (clock 1))"
  have star: "sql_select_star d t entity_id org_id = Inr (Some (map (\<lambda>c. (c, cell r c)) ?cols))"
    using sql_select_star_find[OF tab idc ints(1,2)] row by simp
  have props: "distinct (map fst ?as)" "map_of ?as ''deleted_at'' = Some (PStr (iso (clock 0)))"
    "set (map fst ?as) \<subseteq> {''deleted_at'', ''deleted_by_user_id'', ''updated_at''}"
    by (auto simp: create_rollback_assignments_def)
  show ?thesis
  proof (cases "''deleted_at'' \<in> set ?cols")
    case True
    have keys: "set (map fst ?as) \<subseteq> set ?cols"
      using True by (auto simp: create_rollback_assignments_def)
    have bind: "sql_bind_all (map snd ?as) = Inr (map snd ?as)"
      using ints(3) by (auto simp: create_rollback_assignments_def)
    have nn: "\<forall>(k, v) \<in> set ?as. v = PNone \<longrightarrow> k \<notin> set (t_notnull T)"
      by (auto simp: create_rollback_assignments_def)
    have upd: "sql_update d t ?as entity_id org_id =
        Inr (d\<lparr>tables := AList.update t
                  (T\<lparr>t_rows := map (\<lambda>r. if row_matches entity_id org_id r then row_assign r ?as else r)
                                  (t_rows T)\<rparr>) (tables d)\<rparr>)"
      by (rule sql_update_plain[OF tab keys idc ints(1,2) bind nn])
    have "\<exists>d2 entry. rollback_apply clock d org_id actor_user_id audit_id t entity_id None
             = (Inr (True, ''Rollback applied''), d2)
         \<and> audit_log d2 = audit_log d @ [entry] \<and> a_action entry = ''audit_rollback_applied''
         \<and> tables d2 = AList.update t
              (T\<lparr>t_rows := map (\<lambda>r. if row_matches entity_id org_id r then row_assign r ?as else r)
                                   (t_rows T)\<rparr>) (tables d)"
      unfolding rollback_apply_def
      using idc star upd True ints
      by (simp add: table_columns_Some[OF tab] Let_def log_action_ok del: row_assign.simps)
    then obtain d2 entry where "rollback_apply clock d org_id actor_user_id audit_id t entity_id None
             = (Inr (True, ''Rollback applied''), d2)"
         "audit_log d2 = audit_log d @ [entry]" "a_action entry = ''audit_rollback_applied''"
         "tables d2 = AList.update t
              (T\<lparr>t_rows := map (\<lambda>r. if row_matches entity_id org_id r then row_assign r ?as else r)
                                   (t_rows T)\<rparr>) (tables d)"
      by blast
    then show ?thesis
      apply (intro exI[of _ d2] exI[of _ entry] exI[of _ ?as])
      using True props by simp
  next
    case False
    have del: "sql_delete d t entity_id org_id =
           Inr (d\<lparr>tables := AList.update t
              (T\<lparr>t_rows := filter (\<lambda>r. \<not> row_matches entity_id org_id r) (t_rows T)\<rparr>) (tables d)\<rparr>)"
      by (rule sql_delete_ok[OF tab idc ints(1,2)])
    have "\<exists>d2 entry. rollback_apply clock d org_id actor_user_id audit_id t entity_id None
             = (Inr (True, ''Rollback applied''), d2)
         \<and> audit_log d2 = audit_log d @ [entry] \<and> a_action entry = ''audit_rollback_applied''
         \<and> tables d2 = AList.update t
              (T\<lparr>t_rows := filter (\<lambda>r. \<not> row_matches entity_id org_id r) (t_rows T)\<rparr>) (tables d)"
      unfolding rollback_apply_def
      using idc star del False ints
      by (simp add: table_columns_Some[OF tab] Let_def log_action_ok)
    then obtain d2 entry where "rollback_apply clock d org_id actor_user_id audit_id t entity_id None
             = (Inr (True, ''Rollback applied''), d2)"
         "audit_log d2 = audit_log d @ [entry]" "a_action entry = ''audit_rollback_applied''"
         "tables d2 = AList.update t
              (T\<lparr>t_rows := filter (\<lambda>r. \<not> row_matches entity_id org_id r) (t_rows T)\<rparr>) (tables d)"
      by blast
    then show ?thesis
      apply (intro exI[of _ d2] exI[of _ entry] exI[of _ ?as])
      using False props by simp
  qed
qed

text \<open>
  Claim C2, as the code has it. Rolling back an entry that records a creation
  (\<^verbatim>\<open>rollback.before\<close> is null), for a record that exists in an allow-listed table, returns
  \<^verbatim>\<open>Rollback applied\<close> and leaves no active record with that id for the tenant. Where the
  table has a \<^verbatim>\<open>deleted_at\<close> column the record stays in the table, soft-deleted at the
  time of the rollback; where it has none the record is removed.
\<close>

theorem rollback_creation_leaves_no_active_record:
  assumes entry: "rollback_entry loads d org_id audit_id row rollback"
      and table: "rollback_table rollback row = t" "t \<in> set AUDIT_ROLLBACK_TABLES"
      and target: "rollback_entity_id rollback row = Some entity_id"
      and before: "dict_get rollback ''before'' = PNone"
      and tab: "map_of (tables d) t = Some T"
      and idc: "''id'' \<in> set (t_columns T)" "''organization_id'' \<in> set (t_columns T)"
      and ints: "sqlite_int entity_id" "sqlite_int actor_user_id"
      and row: "find (row_matches entity_id org_id) (t_rows T) = Some r"
  shows "\<exists>d2 T2.
           rollback_audit_entry loads clock d org_id actor_user_id audit_id
             = (Inr (True, ''Rollback applied''), d2)
         \<and> map_of (tables d2) t = Some T2
         \<and> (\<forall>r2 \<in> set (t_rows T2). row_matches entity_id org_id r2 \<longrightarrow> py_truthy (cell r2 ''deleted_at''))
         \<and> (if ''deleted_at'' \<in> set (t_columns T)
            then has_record d2 t entity_id org_id
               \<and> lookup_cell d2 t entity_id org_id ''deleted_at'' = Some (PStr (iso (clock 0)))
            else \<not> has_record d2 t entity_id org_id)"
proof -
  have org: "sqlite_int org_id"
    using entry by (simp add: rollback_entry_def)
  have eq: "rollback_audit_entry loads clock d org_id actor_user_id audit_id
              = rollback_apply clock d org_id actor_user_id audit_id t entity_id None"
    unfolding rollback_audit_entry_def
    using rollback_entry_select[OF entry] table target before by (simp add: Let_def)
  let ?m = "row_matches entity_id org_id"
  from rollback_apply_create[OF tab idc ints(1) org ints(2) row, of clock audit_id]
  obtain d2 as where res: "rollback_apply clock d org_id actor_user_id audit_id t entity_id None
             = (Inr (True, ''Rollback applied''), d2)"
    and tabs: "tables d2 = AList.update t
              (T\<lparr>t_rows := (if ''deleted_at'' \<in> set (t_columns T)
                            then map (\<lambda>r. if ?m r then row_assign r as else r) (t_rows T)
                            else filter (\<lambda>r. \<not> ?m r) (t_rows T))\<rparr>) (tables d)"
    and dist: "distinct (map fst as)"
    and del: "map_of as ''deleted_at'' = Some (PStr (iso (clock 0)))"
    and keys: "set (map fst as) \<subseteq> {''deleted_at'', ''deleted_by_user_id'', ''updated_at''}"
    by blast
  let ?T2 = "T\<lparr>t_rows := (if ''deleted_at'' \<in> set (t_columns T)
                            then map (\<lambda>r. if ?m r then row_assign r as else r) (t_rows T)
                            else filter (\<lambda>r. \<not> ?m r) (t_rows T))\<rparr>"
  have tab2: "map_of (tables d2) t = Some ?T2"
    by (simp add: tabs update_conv')
  have nokey: "map_of as ''id'' = None" "map_of as ''organization_id'' = None"
    using keys by (auto simp: map_of_eq_None_iff)
  have same: "\<And>r0. ?m (row_assign r0 as) = ?m r0"
    by (simp add: row_matches_def cell_row_assign[OF dist] nokey)
  have marked: "\<And>r0. cell (row_assign r0 as) ''deleted_at'' = PStr (iso (clock 0))"
    by (simp add: cell_row_assign[OF dist] del)
  have active: "\<forall>r2 \<in> set (t_rows ?T2). ?m r2 \<longrightarrow> py_truthy (cell r2 ''deleted_at'')"
    using same marked by (auto simp: iso_nonempty)
  have state: "if ''deleted_at'' \<in> set (t_columns T)
            then has_record d2 t entity_id org_id
               \<and> lookup_cell d2 t entity_id org_id ''deleted_at'' = Some (PStr (iso (clock 0)))
            else \<not> has_record d2 t entity_id org_id"
  proof (cases "''deleted_at'' \<in> set (t_columns T)")
    case True
    have "find ?m (map (\<lambda>r. if ?m r then row_assign r as else r) (t_rows T))
            = map_option (\<lambda>r. if ?m r then row_assign r as else r) (find ?m (t_rows T))"
      by (rule find_map_same) (simp add: same)
    moreover have "?m r"
      using find_SomeD[OF row] by simp
    ultimately have f: "find ?m (t_rows ?T2) = Some (row_assign r as)"
      using True row by simp
    have "list_ex ?m (t_rows ?T2)"
      using find_SomeD[OF f] unfolding list_ex_iff by blast
    then show ?thesis
      using True f by (simp add: has_record_def lookup_cell_def tab2 marked)
  next
    case False
    then show ?thesis
      by (simp add: has_record_def tab2 list_ex_iff)
  qed
  show ?thesis
    using eq res tab2 active state by (intro exI[of _ d2] exI[of _ ?T2]) simp
qed

lemma demo_entry_1:
  "rollback_entry demo_loads demo_db 1 1 (demo_entry 1 ''task_created'' ''tasks'' demo_text_1) demo_rollback_1"
  by code_simp

lemma demo_store_facts:
  "map_of (tables demo_db) ''tasks'' = Some demo_tasks"
  "''id'' \<in> set (t_columns demo_tasks)" "''organization_id'' \<in> set (t_columns demo_tasks)"
  "sqlite_int 42" "sqlite_int 7"
  "find (row_matches 42 1) (t_rows demo_tasks) = Some demo_row_active"
  by (simp_all add: demo_db_def demo_tasks_def demo_row_active_def row_matches_def cell_def sqlite_int_def)

theorem rollback_creation_leaves_no_active_record_witness:
  "\<exists>d2 T2.
     rollback_audit_entry demo_loads demo_clock demo_db 1 7 1 = (Inr (True, ''Rollback applied''), d2)
   \<and> map_of (tables d2) ''tasks'' = Some T2
   \<and> (\<forall>r2 \<in> set (t_rows T2). row_matches 42 1 r2 \<longrightarrow> py_truthy (cell r2 ''deleted_at''))
   \<and> (if ''deleted_at'' \<in> set (t_columns demo_tasks)
      then has_record d2 ''tasks'' 42 1
         \<and> lookup_cell d2 ''tasks'' 42 1 ''deleted_at'' = Some (PStr (iso (demo_clock 0)))
      else \<not> has_record d2 ''tasks'' 42 1)"
proof -
  have table: "rollback_table demo_rollback_1 (demo_entry 1 ''task_created'' ''tasks'' demo_text_1) = ''tasks''"
    by code_simp
  have allowed: "''tasks'' \<in> set AUDIT_ROLLBACK_TABLES"
    by (simp add: AUDIT_ROLLBACK_TABLES_def)
  have target: "rollback_entity_id demo_rollback_1 (demo_entry 1 ''task_created'' ''tasks'' demo_text_1) = Some 42"
    by code_simp
  have before: "dict_get demo_rollback_1 ''before'' = PNone"
    by (simp add: demo_rollback_1_def dict_get_def)
  show ?thesis
    by (rule rollback_creation_leaves_no_active_record[OF demo_entry_1 table allowed target before
        demo_store_facts])
qed


theorem rollback_creation_keeps_soft_deleted_record:
  "fst (rollback_audit_entry demo_loads demo_clock demo_db 1 7 1) = Inr (True, ''Rollback applied'')
   \<and> has_record (snd (rollback_audit_entry demo_loads demo_clock demo_db 1 7 1)) ''tasks'' 42 1
   \<and> lookup_cell (snd (rollback_audit_entry demo_loads demo_clock demo_db 1 7 1)) ''tasks'' 42 1 ''deleted_at''
       = Some (PStr ''2026-11-05T21:47:00+00:00'')"
  by code_simp





lemma restore_values_always:
  "restore_values columns snapshot org_id stamp \<noteq> []"
  "map_of (restore_values columns snapshot org_id stamp) ''organization_id'' = Some (PInt org_id)"
  "''id'' \<notin> fst ` set (restore_values columns snapshot org_id stamp)"
  by (auto simp: restore_values_def Let_def dict_set_def update_conv' dom_update dict_keys_def)

lemma fst_write_log:
  "fst (case w of
          Inl e \<Rightarrow> (Inl e, d)
        | Inr d1 \<Rightarrow> (case lg d1 of Inl e \<Rightarrow> (Inl e, d1) | Inr d2 \<Rightarrow> (Inr (True, msg), d2)))
     \<noteq> Inr (False, reason)"
  by (auto split: sum.splits)

text \<open>
  No input makes the second half of the rollback return the no-restorable-fields reason:
  the dict tested at line 2688 always holds \<^verbatim>\<open>organization_id\<close>.
\<close>

lemma rollback_apply_never_no_restorable_fields:
  "fst (rollback_apply clock d org_id actor_user_id audit_id t entity_id before)
     \<noteq> Inr (False, ''No restorable fields on this entry'')"
proof (cases "''id'' \<notin> set (table_columns d t) \<or> ''organization_id'' \<notin> set (table_columns d t)")
  case True
  then show ?thesis
    unfolding rollback_apply_def by (auto simp: Let_def)
next
  case False
  show ?thesis
  proof (cases "sql_select_star d t entity_id org_id")
    case (Inl e)
    then show ?thesis
      unfolding rollback_apply_def using False by (simp add: Let_def)
  next
    case (Inr existing)
    show ?thesis
    proof (cases before)
      case None
      show ?thesis
      proof (cases existing)
        case no_row: None
        then show ?thesis
          unfolding rollback_apply_def using False Inr None by (simp add: Let_def)
      next
        case (Some row0)
        show ?thesis
          unfolding rollback_apply_def using False Inr None Some
          apply (simp add: Let_def split del: if_split)
          apply (rule fst_write_log)
          done
      qed
    next
      case (Some snapshot)
      show ?thesis
      proof (cases existing)
        case None
        show ?thesis
          unfolding rollback_apply_def using False Inr Some None
          apply (simp add: Let_def split del: if_split)
          apply (rule fst_write_log)
          done
      next
        case row: (Some row0)
        show ?thesis
          unfolding rollback_apply_def using False Inr Some row
          apply (simp add: Let_def restore_values_always split del: if_split)
          apply (rule fst_write_log)
          done
      qed
    qed
  qed
qed

text \<open>
  Claim C5 does not hold of the code. On the sample entry whose snapshot has no column of
  the table (its only key is \<^verbatim>\<open>legacy_code\<close>), rollback returns \<^verbatim>\<open>Rollback applied\<close>, rewrites
  \<^verbatim>\<open>updated_at\<close> of the record and writes a ledger entry: \<^verbatim>\<open>organization_id\<close> is put into
  \<^verbatim>\<open>restore_values\<close> (line 2683) before the emptiness test of line 2688, so the test never
  succeeds.
\<close>

theorem rollback_without_restorable_fields_is_applied:
  "fst (rollback_audit_entry demo_loads demo_clock demo_db 1 7 5) = Inr (True, ''Rollback applied'')
   \<and> dict_get demo_rollback_5 ''before'' = PDict [(''legacy_code'', PInt 1)]
   \<and> ''legacy_code'' \<notin> set (table_columns demo_db ''tasks'')
   \<and> lookup_cell demo_db ''tasks'' 42 1 ''updated_at'' = Some (PStr ''2026-02-01T09:00:00+00:00'')
   \<and> lookup_cell (snd (rollback_audit_entry demo_loads demo_clock demo_db 1 7 5)) ''tasks'' 42 1 ''updated_at''
       = Some (PStr ''2026-11-05T21:47:00+00:00'')
   \<and> map a_action (audit_log (snd (rollback_audit_entry demo_loads demo_clock demo_db 1 7 5)))
       = [''task_created'', ''task_saved'', ''task_saved'', ''task_imported'', ''task_saved'',
          ''audit_rollback_applied'']"
  by code_simp


section \<open>Ledger writer: the claim\<close>

lemma change_payload_rollback:
  "map_of (change_payload table entity_id before after summary source) ''rollback'' =
     (if table \<in> set AUDIT_ROLLBACK_TABLES
      then Some (PDict [(''table'', PStr table), (''entity_id'', PStr (py_str entity_id)),
                        (''before'', opt_dict before)])
      else None)"
  by (simp add: change_payload_def dict_set_def)

text \<open>
  Claim C7, as the code has it. The payload the ledger writer builds has a \<^verbatim>\<open>rollback\<close>
  member exactly when the table is in the allow-list; the member holds the table, the
  string form of the target id and the caller's before-snapshot (null for a creation).
  The entry that is written holds the first 14000 characters of the payload's JSON text:
  the whole text when it has at most 14000 characters.
\<close>

theorem ledger_writer_payload:
  assumes ints: "sqlite_int org_id" "sqlite_int user_id"
  shows "\<exists>entry.
           log_change_with_rollback d org_id user_id action table entity_id before after summary source now
             = Inr (d\<lparr>audit_log := audit_log d @ [entry], audit_seq := next_audit_id d\<rparr>)
         \<and> a_action entry = action \<and> a_entity entry = Some table
         \<and> a_entity_id entry = Some (py_str entity_id)
         \<and> a_details entry
             = Some (take 14000 (json_dumps (PDict (change_payload table entity_id before after summary source))))
         \<and> (length (json_dumps (PDict (change_payload table entity_id before after summary source))) \<le> 14000
              \<longrightarrow> a_details entry
                    = Some (json_dumps (PDict (change_payload table entity_id before after summary source))))
         \<and> map_of (change_payload table entity_id before after summary source) ''rollback'' =
             (if table \<in> set AUDIT_ROLLBACK_TABLES
              then Some (PDict [(''table'', PStr table), (''entity_id'', PStr (py_str entity_id)),
                                (''before'', opt_dict before)])
              else None)"
proof -
  let ?text = "json_dumps (PDict (change_payload table entity_id before after summary source))"
  let ?entry = "\<lparr>a_id = next_audit_id d, a_organization_id = Some org_id, a_user_id = Some user_id,
                 a_action = action, a_entity = Some table, a_entity_id = Some (py_str entity_id),
                 a_details = Some (take 14000 ?text), a_created_at = iso now\<rparr>"
  have "log_change_with_rollback d org_id user_id action table entity_id before after summary source now
          = Inr (d\<lparr>audit_log := audit_log d @ [?entry], audit_seq := next_audit_id d\<rparr>)"
    by (rule log_change_ok[OF ints])
  then show ?thesis
    by (intro exI[of _ ?entry]) (simp add: change_payload_rollback)
qed

lemma demo_creation_text:
  "json_dumps (PDict (change_payload ''tasks'' (PInt 42) None (Some demo_row_before)
                        ''Task created: Fix the printer'' ''api'')) = demo_text_1"
  by code_simp

theorem ledger_writer_payload_witness:
  "written_details (log_change_with_rollback demo_db 1 7 ''task_created'' ''tasks'' (PInt 42) None
      (Some demo_row_before) ''Task created: Fix the printer'' ''api'' (demo_clock 0)) = Some demo_text_1
   \<and> map_of (change_payload ''tasks'' (PInt 42) None (Some demo_row_before)
                ''Task created: Fix the printer'' ''api'') ''rollback''
       = Some (PDict [(''table'', PStr ''tasks''), (''entity_id'', PStr ''42''), (''before'', PNone)])"
proof -
  have ints: "sqlite_int 1" "sqlite_int 7"
    by (simp_all add: sqlite_int_def)
  have len: "length demo_text_1 \<le> 14000"
    by (simp add: demo_text_1_def)
  have allowed: "''tasks'' \<in> set AUDIT_ROLLBACK_TABLES"
    by (simp add: AUDIT_ROLLBACK_TABLES_def)
  have str: "py_str (PInt 42) = ''42''"
    by code_simp
  show ?thesis
    using ledger_writer_payload[OF ints, of demo_db "''task_created''" "''tasks''" "PInt 42" None
        "Some demo_row_before" "''Task created: Fix the printer''" "''api''" "demo_clock 0"]
      len allowed
    by (auto simp: demo_creation_text written_details_def str opt_dict_def)
qed

lemma json_escape_x: "concat (map json_escape_char (replicate n CHR ''x'')) = replicate n CHR ''x''"
  by (induction n) (simp_all add: json_escape_char_def code_of_def)

lemma not_sublist_replicate:
  assumes ne: "xs \<noteq> []" and l: "last xs \<noteq> c" and ns: "\<not> sublist xs ys"
  shows "\<not> sublist xs (ys @ replicate n c)"
proof
  assume "sublist xs (ys @ replicate n c)"
  then have split: "sublist xs ys \<or> sublist xs (replicate n c)
      \<or> (\<exists>xs1 xs2. xs = xs1 @ xs2 \<and> suffix xs1 ys \<and> prefix xs2 (replicate n c))"
    by (simp only: sublist_append)
  have all_c: "\<And>zs. zs \<noteq> [] \<Longrightarrow> set zs \<subseteq> set (replicate n c) \<Longrightarrow> last zs = c"
  proof -
    fix zs :: "'a list" assume z: "zs \<noteq> []" "set zs \<subseteq> set (replicate n c)"
    have "last zs \<in> set zs" using z(1) by simp
    then have "last zs \<in> set (replicate n c)" using z(2) by blast
    then show "last zs = c" by (simp split: if_splits)
  qed
  have second: "\<not> sublist xs (replicate n c)"
  proof
    assume "sublist xs (replicate n c)"
    then have "set xs \<subseteq> set (replicate n c)" by (rule set_mono_sublist)
    from all_c[OF ne this] l show False by simp
  qed
  have third: "\<not> (\<exists>xs1 xs2. xs = xs1 @ xs2 \<and> suffix xs1 ys \<and> prefix xs2 (replicate n c))"
  proof
    assume "\<exists>xs1 xs2. xs = xs1 @ xs2 \<and> suffix xs1 ys \<and> prefix xs2 (replicate n c)"
    then obtain xs1 xs2 where x: "xs = xs1 @ xs2" "suffix xs1 ys" "prefix xs2 (replicate n c)"
      by blast
    show False
    proof (cases "xs2 = []")
      case True
      then have "suffix xs ys" using x(1,2) by simp
      then have "sublist xs ys" by (rule suffix_imp_sublist)
      then show False using ns by simp
    next
      case False
      have "set xs2 \<subseteq> set (replicate n c)" using x(3) by (rule set_mono_prefix)
      from all_c[OF False this] have "last xs = c" using x(1) False by simp
      then show False using l by simp
    qed
  qed
  from split ns second third show False by blast
qed

lemma take_head_replicate:
  "length p \<le> n \<Longrightarrow> n - length p \<le> m \<Longrightarrow>
     take n (p @ replicate m c @ rest) = p @ replicate (n - length p) c"
  by (simp add: min_def)

lemma demo_long_text:
  \<open>json_dumps (PDict (change_payload ''tasks'' (PInt 42) (Some demo_long_snapshot) None [] ''api''))
     = ''{"source": "api", "summary": "", "before": {"title": "'' @ replicate 14000 CHR ''x'' @
       ''"}, "after": null, "rollback": {"table": "tasks", "entity_id": "42", "before": {"title": "''
       @ replicate 14000 CHR ''x'' @ ''"}}}''\<close>
  by (simp add: change_payload_def AUDIT_ROLLBACK_TABLES_def dict_set_def opt_dict_def
      demo_long_snapshot_def json_dumps.simps json_string_def json_escape_x json_escape_char_def
      code_of_def py_str_def py_repr.simps str_of_int_def digits_of_nat.simps)

text \<open>
  A write for the allow-listed table \<^verbatim>\<open>tasks\<close> whose before-snapshot holds a title of 14000
  characters: the stored text stops inside the title and has no \<^verbatim>\<open>rollback\<close> member.
\<close>

theorem ledger_writer_truncates_rollback:
  \<open>''tasks'' \<in> set AUDIT_ROLLBACK_TABLES
   \<and> written_details (log_change_with_rollback demo_db 1 7 ''task_saved'' ''tasks'' (PInt 42)
        (Some demo_long_snapshot) None [] ''api'' (demo_clock 0))
       = Some (''{"source": "api", "summary": "", "before": {"title": "'' @ replicate 13946 CHR ''x'')
   \<and> \<not> sublist ''rollback''
          (''{"source": "api", "summary": "", "before": {"title": "'' @ replicate 13946 CHR ''x'')\<close>
proof -
  have allowed: "''tasks'' \<in> set AUDIT_ROLLBACK_TABLES"
    by (simp add: AUDIT_ROLLBACK_TABLES_def)
  have ints: "sqlite_int 1" "sqlite_int 7"
    by (simp_all add: sqlite_int_def)
  have cut: \<open>take 14000 (json_dumps (PDict (change_payload ''tasks'' (PInt 42) (Some demo_long_snapshot)
                 None [] ''api'')))
      = ''{"source": "api", "summary": "", "before": {"title": "'' @ replicate 13946 CHR ''x''\<close>
    unfolding demo_long_text by (subst take_head_replicate) simp_all
  have \<open>written_details (log_change_with_rollback demo_db 1 7 ''task_saved'' ''tasks'' (PInt 42)
        (Some demo_long_snapshot) None [] ''api'' (demo_clock 0))
       = Some (take 14000 (json_dumps (PDict (change_payload ''tasks'' (PInt 42) (Some demo_long_snapshot)
                 None [] ''api''))))\<close>
    by (simp add: log_change_ok[OF ints] written_details_def)
  then have stored: \<open>written_details (log_change_with_rollback demo_db 1 7 ''task_saved'' ''tasks'' (PInt 42)
        (Some demo_long_snapshot) None [] ''api'' (demo_clock 0))
       = Some (''{"source": "api", "summary": "", "before": {"title": "'' @ replicate 13946 CHR ''x'')\<close>
    unfolding cut .
  have head: \<open>\<not> sublist ''rollback'' ''{"source": "api", "summary": "", "before": {"title": "''\<close>
    by code_simp
  have none: \<open>\<not> sublist ''rollback''
          (''{"source": "api", "summary": "", "before": {"title": "'' @ replicate 13946 CHR ''x'')\<close>
    by (rule not_sublist_replicate[OF _ _ head]) simp_all
  show ?thesis using allowed stored none by blast
qed


section \<open>Tenant isolation\<close>









lemma sql_bind_all_prefix:
  "sql_bind_all (vs @ ws) = Inr bs \<Longrightarrow> \<exists>cs. sql_bind_all vs = Inr cs"
  by (induction vs arbitrary: bs) (auto split: sum.splits)
































end
